theory Spec2Isabelle
  imports Complex_Main "HOL-Library.Sublist"
begin

section \<open>Data model (lib/types.ts)\<close>

text \<open>
  Every TypeScript object type is a record, every string-literal union a datatype and
  every optional field an \<open>option\<close>. A JavaScript \<open>number\<close> is carried as a \<open>real\<close>:
  the code modelled below stores and copies such fields and never computes with them.
  Field names carry a prefix naming their type, since record fields are global constants.
\<close>

datatype train_status = OnTime | Delayed | Stopped | AtPlatform

record train =
  train_id :: string
  train_number :: string
  train_origin :: "string option"
  train_destination :: "string option"
  train_scheduledArrival :: "string option"
  train_scheduledDeparture :: "string option"
  train_delayMinutes :: "real option"
  train_status :: "train_status option"
  train_currentLocation :: "string option"
  train_capacity :: "real option"
  train_passengers :: "real option"

record kpi_impact =
  ki_delayReduction :: real
  ki_throughput :: real
  ki_safety :: string
  ki_cost :: "real option"
  ki_passengerImpact :: "real option"

datatype risk_level = LowRisk | MediumRisk | HighRisk

record alternative =
  alt_id :: string
  alt_action :: string
  alt_kpis :: kpi_impact
  alt_description :: "string option"
  alt_estimatedDuration :: "real option"
  alt_riskLevel :: "risk_level option"

datatype priority = Low | Medium | High | Critical

datatype rec_status = Pending | Accepted | Rejected | Expired

record estimated_impact =
  ei_delayReduction :: real
  ei_costSavings :: real
  ei_passengerBenefit :: real

record recommendation =
  rec_id :: string
  rec_trainId :: "string option"
  rec_action :: string
  rec_rationale :: string
  rec_confidence :: real
  rec_kpis :: kpi_impact
  rec_alternatives :: "alternative list"
  rec_createdAt :: "string option"
  rec_priority :: "priority option"
  rec_status :: "rec_status option"
  rec_estimatedImpact :: "estimated_impact option"

record prediction =
  pred_trainId :: string
  pred_delayMinutes :: real
  pred_confidence :: "real option"
  pred_predictedArrival :: "string option"
  pred_factors :: "string list option"
  pred_modelVersion :: "string option"

record projected_kpis =
  pk_delay :: real
  pk_throughput :: real
  pk_safety :: string
  pk_cost :: "real option"
  pk_utilization :: "real option"

record chart_point =
  cp_time :: string
  cp_delay :: real
  cp_throughput :: "real option"
  cp_utilization :: "real option"

record kpi_triple =
  kt_delay :: real
  kt_throughput :: real
  kt_safety :: string

record comparison_data =
  cmp_baseline :: kpi_triple
  cmp_projected :: kpi_triple

record simulation_result =
  sim_scenarioId :: string
  sim_projectedKPIs :: projected_kpis
  sim_chartData :: "chart_point list option"
  sim_comparisonData :: "comparison_data option"
  sim_recommendations :: "string list option"

record what_if_constraints =
  wc_maxDelay :: "real option"
  wc_priorityTrains :: "string list option"
  wc_excludeRoutes :: "string list option"

record what_if_payload =
  wp_trainId :: string
  wp_delayMinutes :: "real option"
  wp_rerouteTo :: "string option"
  wp_scenarioName :: "string option"
  wp_additionalConstraints :: "what_if_constraints option"

text \<open>The field \<open>details\<close> of an audit entry has the type \<open>any\<close>: a JSON value.\<close>

datatype json =
    JNull
  | JBool bool
  | JNumber real
  | JString string
  | JArray "json list"
  | JObject "(string \<times> json) list"

text \<open>
  An object as a JSON value: the properties that are present, in the order written. The
  views below are those of the objects \<open>runSimulation\<close> places in \<open>details\<close>.
\<close>

definition object_of :: "(string \<times> json option) list \<Rightarrow> json" where
  "object_of props = JObject (List.map_filter (\<lambda>(k, v). map_option (Pair k) v) props)"

definition json_of_strings :: "string list \<Rightarrow> json" where
  "json_of_strings xs = JArray (map JString xs)"

definition json_of_constraints :: "what_if_constraints \<Rightarrow> json" where
  "json_of_constraints c =
     object_of
       [(''maxDelay'', map_option JNumber (wc_maxDelay c)),
        (''priorityTrains'', map_option json_of_strings (wc_priorityTrains c)),
        (''excludeRoutes'', map_option json_of_strings (wc_excludeRoutes c))]"

definition json_of_payload :: "what_if_payload \<Rightarrow> json" where
  "json_of_payload p =
     object_of
       [(''trainId'', Some (JString (wp_trainId p))),
        (''delayMinutes'', map_option JNumber (wp_delayMinutes p)),
        (''rerouteTo'', map_option JString (wp_rerouteTo p)),
        (''scenarioName'', map_option JString (wp_scenarioName p)),
        (''additionalConstraints'', map_option json_of_constraints (wp_additionalConstraints p))]"

definition json_of_projected_kpis :: "projected_kpis \<Rightarrow> json" where
  "json_of_projected_kpis k =
     object_of
       [(''delay'', Some (JNumber (pk_delay k))),
        (''throughput'', Some (JNumber (pk_throughput k))),
        (''safety'', Some (JString (pk_safety k))),
        (''cost'', map_option JNumber (pk_cost k)),
        (''utilization'', map_option JNumber (pk_utilization k))]"

datatype outcome = Success | Failure | Partial

record impact_metrics =
  im_delayChange :: real
  im_throughputChange :: real
  im_costImpact :: real

text \<open>
  \<open>audit_draft\<close> is \<open>Omit<AuditLog, 'id' | 'timestamp'>\<close>; \<open>audit_log\<close> extends it by the two
  omitted fields, so that the selectors of the draft also read a complete entry.
\<close>

record audit_draft =
  log_recId :: "string option"
  log_trainId :: "string option"
  log_action :: string
  log_actor :: string
  log_reason :: "string option"
  log_details :: "json option"
  log_outcome :: "outcome option"
  log_impactMetrics :: "impact_metrics option"

record audit_log = audit_draft +
  log_id :: string
  log_timestamp :: string

datatype trend = Up | Down | Stable

datatype kpi_status = KpiGood | KpiWarning | KpiCritical

record kpi =
  kpi_name :: string
  kpi_value :: real
  kpi_unit :: "string option"
  kpi_target :: "real option"
  kpi_trend :: "trend option"
  kpi_change :: "real option"
  kpi_changePercent :: "real option"
  kpi_status :: "kpi_status option"

datatype role = User | Assistant | System

record reference =
  ref_source :: string
  ref_id :: "string option"
  ref_title :: "string option"
  ref_url :: "string option"

record chat_message =
  msg_id :: string
  msg_role :: role
  msg_text :: string
  msg_timestamp :: string
  msg_references :: "reference list option"
  msg_intent :: "string option"
  msg_confidence :: "real option"
  msg_actionable :: "bool option"

record session_context =
  ctx_currentPage :: "string option"
  ctx_selectedTrains :: "string list option"
  ctx_activeRecommendations :: "string list option"

record chat_session =
  sessionId :: string
  messages :: "chat_message list"
  createdAt :: string
  lastActive :: string
  chat_context :: "session_context option"

record filter_state =
  fs_dateRange :: "(string \<times> string) option"
  fs_trainIds :: "string list option"
  fs_status :: "train_status list option"
  fs_priority :: "string list option"

record 'a api_response =
  resp_data :: 'a
  resp_success :: bool
  resp_message :: "string option"
  resp_timestamp :: string
  resp_metadata :: "json option"

record last_updated =
  lu_trains :: "string option"
  lu_recommendations :: "string option"
  lu_predictions :: "string option"
  lu_kpis :: "string option"

text \<open>
  \<open>StoreState\<close>. The field \<open>kpis\<close> is declared \<open>KPI[]\<close>, but \<open>fetchKpis\<close> assigns to it the
  \<open>data\<close> field of the response without any check; \<open>kpis_payload\<close> lists the two shapes that
  field has in this repository: a bare array, and the report object built by the route
  \<open>GET /kpis\<close> (app/api/kpis/route.ts).
\<close>

record kpis_summary =
  sum_totalTrains :: nat
  sum_delayedTrains :: nat
  sum_activeRecommendations :: nat
  sum_systemHealth :: string

record kpis_report =
  rep_kpis :: "kpi list"
  rep_lastUpdated :: string
  rep_networkStatus :: string
  rep_summary :: kpis_summary
  rep_history :: "json option"

datatype kpis_payload = KpiArray "kpi list" | KpiReport kpis_report

record store =
  trains :: "train list"
  recommendations :: "recommendation list"
  predictions :: "prediction list"
  auditLogs :: "audit_log list"
  kpis :: kpis_payload
  chatSessions :: "chat_session list"
  loading :: bool
  error :: "string option"
  selectedTrains :: "string list"
  activeFilters :: filter_state
  lastUpdated :: last_updated

definition initial_store :: store where
  "initial_store =
     \<lparr>trains = [], recommendations = [], predictions = [], auditLogs = [],
      kpis = KpiArray [], chatSessions = [], loading = False, error = None,
      selectedTrains = [],
      activeFilters = \<lparr>fs_dateRange = None, fs_trainIds = None, fs_status = None,
                        fs_priority = None\<rparr>,
      lastUpdated = \<lparr>lu_trains = None, lu_recommendations = None, lu_predictions = None,
                       lu_kpis = None\<rparr>\<rparr>"

section \<open>The environment: clock, random source, thrown errors\<close>

text \<open>
  One reading of the environment per synchronous block of an action: \<open>Date.now()\<close>,
  \<open>new Date().toISOString()\<close> and \<open>Math.random().toString(36).substr(2, 9)\<close>.
\<close>

record clock =
  nowMs :: nat
  nowIso :: string
  randomSuffix :: string

text \<open>Thrown values: an \<open>Error\<close> with its message, a failure of \<open>fetch\<close> itself, and the
  \<open>SyntaxError\<close> of \<open>response.json()\<close> on a body that is not JSON.\<close>

datatype error_value = Error string | NetworkError string | SyntaxError

text \<open>The character of a decimal digit.\<close>

fun digit :: "nat \<Rightarrow> char" where
  "digit n = ''0123456789'' ! (n mod 10)"

text \<open>The decimal text of a number, as a template literal renders it.\<close>

fun decimal :: "nat \<Rightarrow> string" where
  "decimal n = (if n < 10 then [digit n] else decimal (n div 10) @ [digit (n mod 10)])"

declare decimal.simps [simp del]

section \<open>Transport adapter (services/adapterBase.ts)\<close>

text \<open>\<open>process.env.NEXT_PUBLIC_API_BASE || '/api'\<close>: an unset or empty variable gives the default.\<close>

definition getApiBaseUrl :: "string option \<Rightarrow> string" where
  "getApiBaseUrl env_base =
     (case env_base of None \<Rightarrow> ''/api'' | Some b \<Rightarrow> if b = [] then ''/api'' else b)"

definition apiUrl :: "string option \<Rightarrow> string \<Rightarrow> string" where
  "apiUrl env_base path =
     (let baseUrl = getApiBaseUrl env_base;
          cleanPath = (if prefix ''/'' path then path else ''/'' @ path)
      in baseUrl @ cleanPath)"

text \<open>
  The properties of \<open>RequestInit\<close> that this repository sets. \<open>None\<close> is a property the object
  does not have. A headers object is a finite map from header names to values; the body is
  kept as the value handed to \<open>JSON.stringify\<close>.
\<close>

record 'b request_init =
  ri_method :: "string option"
  ri_body :: "'b option"
  ri_headers :: "(string \<rightharpoonup> string) option"

text \<open>
  Object spread: in \<open>{ k: v, ...o }\<close> a property \<open>k\<close> that \<open>o\<close> has replaces \<open>v\<close>; in
  \<open>{ ...h }\<close> an undefined \<open>h\<close> contributes nothing.
\<close>

definition spread_over :: "'a option \<Rightarrow> 'a option \<Rightarrow> 'a option" where
  "spread_over literal own = (case own of None \<Rightarrow> literal | Some v \<Rightarrow> Some v)"

definition spread_headers :: "(string \<rightharpoonup> string) option \<Rightarrow> (string \<rightharpoonup> string)" where
  "spread_headers h = (case h of None \<Rightarrow> Map.empty | Some m \<Rightarrow> m)"

text \<open>
  \<open>defaultOptions\<close> of \<open>apiFetch\<close>, the object handed to \<open>fetch\<close>:
  \<^verbatim>\<open>{ headers: { 'Content-Type': 'application/json', ...options.headers }, ...options }\<close>.
\<close>

definition defaultOptions :: "'b request_init \<Rightarrow> 'b request_init" where
  "defaultOptions options =
     \<lparr>ri_method = spread_over None (ri_method options),
      ri_body = spread_over None (ri_body options),
      ri_headers =
        spread_over
          (Some ([''Content-Type'' \<mapsto> ''application/json''] ++ spread_headers (ri_headers options)))
          (ri_headers options)\<rparr>"

text \<open>
  What \<open>fetch\<close> does is the environment's: it throws, or it answers with a status and a body
  that parses as JSON (\<open>Some\<close>) or does not (\<open>None\<close>).
\<close>

datatype 'a fetch_result = FetchThrows string | HttpResponse nat "'a option"

definition response_ok :: "nat \<Rightarrow> bool" where
  "response_ok status = (200 \<le> status \<and> status \<le> 299)"

definition apiFetch :: "'a fetch_result \<Rightarrow> error_value + 'a" where
  "apiFetch net =
     (case net of
        FetchThrows m \<Rightarrow> Inl (NetworkError m)
      | HttpResponse status body \<Rightarrow>
          if \<not> response_ok status then Inl (Error (''HTTP error! status: '' @ decimal status))
          else (case body of None \<Rightarrow> Inl SyntaxError | Some d \<Rightarrow> Inr d))"

definition apiGet_request :: "string option \<Rightarrow> string \<Rightarrow> string \<times> 'b request_init" where
  "apiGet_request env_base path =
     (apiUrl env_base path,
      defaultOptions \<lparr>ri_method = Some ''GET'', ri_body = None, ri_headers = None\<rparr>)"

text \<open>
  \<open>apiPost\<close> sends \<open>data ? JSON.stringify(data) : undefined\<close>: a value that is missing or
  falsy gives a request without a body. The data is taken as a JSON value.
\<close>

fun json_truthy :: "json \<Rightarrow> bool" where
  "json_truthy JNull = False"
| "json_truthy (JBool b) = b"
| "json_truthy (JNumber r) = (r \<noteq> 0)"
| "json_truthy (JString s) = (s \<noteq> [])"
| "json_truthy (JArray xs) = True"
| "json_truthy (JObject props) = True"

definition apiPost_request :: "string option \<Rightarrow> string \<Rightarrow> json option \<Rightarrow> string \<times> json request_init" where
  "apiPost_request env_base path d =
     (apiUrl env_base path,
      defaultOptions
        \<lparr>ri_method = Some ''POST'',
         ri_body = (case d of None \<Rightarrow> None | Some v \<Rightarrow> if json_truthy v then Some v else None),
         ri_headers = None\<rparr>)"

section \<open>Audit service (services/auditService.ts)\<close>

definition createAuditLog ::
  "string \<Rightarrow> string \<Rightarrow> json option \<Rightarrow> string option \<Rightarrow> string option \<Rightarrow> string option
     \<Rightarrow> audit_draft" where
  "createAuditLog action actor details trainId recId reason =
     \<lparr>log_recId = recId, log_trainId = trainId, log_action = action, log_actor = actor,
      log_reason = reason, log_details = details, log_outcome = Some Success,
      log_impactMetrics = None\<rparr>"

text \<open>\<open>{ ...log, id, timestamp }\<close>.\<close>

definition with_id_timestamp :: "audit_draft \<Rightarrow> string \<Rightarrow> string \<Rightarrow> audit_log" where
  "with_id_timestamp d i t =
     \<lparr>log_recId = log_recId d, log_trainId = log_trainId d, log_action = log_action d,
      log_actor = log_actor d, log_reason = log_reason d, log_details = log_details d,
      log_outcome = log_outcome d, log_impactMetrics = log_impactMetrics d,
      log_id = i, log_timestamp = t\<rparr>"

text \<open>The object \<open>postAudit\<close> posts to \<open>/audit\<close>: the draft with an id and a timestamp made
  on the client.\<close>

definition postAudit_body :: "clock \<Rightarrow> audit_draft \<Rightarrow> audit_log" where
  "postAudit_body clk d =
     with_id_timestamp d (''audit-'' @ decimal (nowMs clk) @ ''-'' @ randomSuffix clk) (nowIso clk)"

text \<open>\<open>postAudit\<close> resolves when the transport does and rethrows what it throws.\<close>

definition postAudit :: "'r fetch_result \<Rightarrow> error_value + unit" where
  "postAudit net = (case apiFetch net of Inl e \<Rightarrow> Inl e | Inr _ \<Rightarrow> Inr ())"


section \<open>Audit route (app/api/audit/route.ts)\<close>

text \<open>The parsed request body: any property may be missing.\<close>

record audit_body =
  body_id :: "string option"
  body_timestamp :: "string option"
  body_action :: "string option"
  body_actor :: "string option"
  body_trainId :: "string option"
  body_recId :: "string option"
  body_reason :: "string option"
  body_details :: "json option"
  body_outcome :: "outcome option"
  body_impactMetrics :: "impact_metrics option"

text \<open>What the server parses from the JSON text of a complete entry.\<close>

definition json_of_audit_log :: "audit_log \<Rightarrow> audit_body" where
  "json_of_audit_log l =
     \<lparr>body_id = Some (log_id l), body_timestamp = Some (log_timestamp l),
      body_action = Some (log_action l), body_actor = Some (log_actor l),
      body_trainId = log_trainId l, body_recId = log_recId l, body_reason = log_reason l,
      body_details = log_details l, body_outcome = log_outcome l,
      body_impactMetrics = log_impactMetrics l\<rparr>"

text \<open>A missing property and the empty string are falsy.\<close>

definition truthy :: "string option \<Rightarrow> bool" where
  "truthy v = (case v of None \<Rightarrow> False | Some s \<Rightarrow> s \<noteq> [])"

definition or_else :: "string option \<Rightarrow> string \<Rightarrow> string" where
  "or_else v d = (case v of None \<Rightarrow> d | Some s \<Rightarrow> if s = [] then d else s)"

record api_error =
  err_status :: nat
  err_error :: string
  err_code :: "string option"
  err_timestamp :: string
  err_details :: "string option"

text \<open>The entry the handler builds from a valid body.\<close>

definition audit_POST_entry :: "clock \<Rightarrow> audit_body \<Rightarrow> audit_log" where
  "audit_POST_entry clk body =
     \<lparr>log_recId = body_recId body, log_trainId = body_trainId body,
      log_action = or_else (body_action body) [], log_actor = or_else (body_actor body) [],
      log_reason = body_reason body, log_details = body_details body,
      log_outcome = (case body_outcome body of None \<Rightarrow> Some Success | Some out \<Rightarrow> Some out),
      log_impactMetrics = body_impactMetrics body,
      log_id = or_else (body_id body)
                 (''audit-'' @ decimal (nowMs clk) @ ''-'' @ randomSuffix clk),
      log_timestamp = or_else (body_timestamp body) (nowIso clk)\<rparr>"

text \<open>
  \<open>POST /audit\<close> on the module's \<open>auditStorage\<close>. The request is the parsed body, or the
  message of the error \<open>request.json()\<close> threw. The result is the reply and the storage
  afterwards.
\<close>

definition audit_POST ::
  "clock \<Rightarrow> string + audit_body \<Rightarrow> audit_log list
     \<Rightarrow> (api_error + string api_response) \<times> audit_log list" where
  "audit_POST clk request auditStorage =
     (case request of
        Inl m \<Rightarrow>
          (Inl \<lparr>err_status = 500, err_error = ''Failed to create audit log'',
                err_code = Some ''AUDIT_CREATE_ERROR'', err_timestamp = nowIso clk,
                err_details = Some m\<rparr>,
           auditStorage)
      | Inr body \<Rightarrow>
          if \<not> truthy (body_action body) \<or> \<not> truthy (body_actor body) then
            (Inl \<lparr>err_status = 400,
                  err_error = ''Missing required fields: action and actor are required'',
                  err_code = Some ''VALIDATION_ERROR'', err_timestamp = nowIso clk,
                  err_details = None\<rparr>,
             auditStorage)
          else
            let auditLog = audit_POST_entry clk body;
                unshifted = auditLog # auditStorage;
                kept = (if length unshifted > 1000 then take 1000 unshifted else unshifted)
            in (Inr \<lparr>resp_data = log_id auditLog, resp_success = True,
                     resp_message = Some ''Audit log created successfully'',
                     resp_timestamp = nowIso clk,
                     resp_metadata =
                       Some (JObject [(''logId'', JString (log_id auditLog)),
                                      (''totalLogs'', JNumber (real (length kept)))])\<rparr>,
                kept))"

section \<open>Domain adapters for chat and predictions\<close>

text \<open>
  \<open>sendChatMessage\<close> of services/chatbotAdapter.ts. The result is the settlement of its
  promise: \<open>Inr\<close> a resolution, \<open>Inl\<close> a rejection.
\<close>

definition chatbot_error_text :: string where
  "chatbot_error_text =
     ''I apologize, but I'' @ [CHR 0x27] @ ''m experiencing technical difficulties. '' @
     ''Please try again later or contact support if the issue persists.''"

text \<open>The message built in the adapter's \<open>catch\<close> block.\<close>

definition chatbot_error_message :: "clock \<Rightarrow> chat_message" where
  "chatbot_error_message clk =
     \<lparr>msg_id = ''error-'' @ decimal (nowMs clk), msg_role = Assistant,
      msg_text = chatbot_error_text, msg_timestamp = nowIso clk,
      msg_references = None, msg_intent = None, msg_confidence = Some 0,
      msg_actionable = None\<rparr>"

definition chatbot_sendChatMessage ::
  "clock \<Rightarrow> (chat_message list) api_response fetch_result \<Rightarrow> error_value + chat_message list" where
  "chatbot_sendChatMessage clk net =
     (case apiFetch net of
        Inr response \<Rightarrow> Inr (resp_data response)
      | Inl e \<Rightarrow> Inr [chatbot_error_message clk])"

text \<open>\<open>runWhatIfScenario\<close> of services/simulatorAdapter.ts: the reply's \<open>data\<close>, or on any
  failure of the transport a default result.\<close>

definition runWhatIfScenario ::
  "clock \<Rightarrow> simulation_result api_response fetch_result \<Rightarrow> error_value + simulation_result" where
  "runWhatIfScenario clk net =
     (case apiFetch net of
        Inr response \<Rightarrow> Inr (resp_data response)
      | Inl e \<Rightarrow>
          Inr \<lparr>sim_scenarioId = ''sim-'' @ decimal (nowMs clk),
               sim_projectedKPIs =
                 \<lparr>pk_delay = 0, pk_throughput = 0, pk_safety = ''unknown'', pk_cost = None,
                  pk_utilization = None\<rparr>,
               sim_chartData = Some [], sim_comparisonData = None,
               sim_recommendations = Some [''Simulation failed - check system status'']\<rparr>)"

text \<open>\<open>getPredictionsForTrains\<close> of services/predictionAdapter.ts: the ids it posts, and its
  settlement.\<close>

definition getPredictionsForTrains_trainIds :: "train list \<Rightarrow> string list" where
  "getPredictionsForTrains_trainIds ts = map train_id ts"


section \<open>Application store (stores/useStore.ts)\<close>

text \<open>
  \<open>set\<close> replaces the named fields of the state in one step. An asynchronous action runs
  in synchronous blocks separated by its \<open>await\<close>: \<open>_start\<close> is the block up to the
  \<open>await\<close>, returning what the continuation keeps (the snapshot \<open>state = get()\<close> and the
  locals) with the store it leaves; \<open>_resume\<close> is the block after it, run on the settlement
  of the awaited promise and on the store as it is then. The action named as in the source
  runs both blocks with nothing in between.
\<close>

subsection \<open>Data actions\<close>

definition setTrains :: "clock \<Rightarrow> train list \<Rightarrow> store \<Rightarrow> store" where
  "setTrains clk ts st =
     st\<lparr>trains := ts, lastUpdated := (lastUpdated st)\<lparr>lu_trains := Some (nowIso clk)\<rparr>\<rparr>"

definition setRecommendations :: "clock \<Rightarrow> recommendation list \<Rightarrow> store \<Rightarrow> store" where
  "setRecommendations clk rs st =
     st\<lparr>recommendations := rs,
        lastUpdated := (lastUpdated st)\<lparr>lu_recommendations := Some (nowIso clk)\<rparr>\<rparr>"

definition setPredictions :: "clock \<Rightarrow> prediction list \<Rightarrow> store \<Rightarrow> store" where
  "setPredictions clk ps st =
     st\<lparr>predictions := ps, lastUpdated := (lastUpdated st)\<lparr>lu_predictions := Some (nowIso clk)\<rparr>\<rparr>"

definition setKpis :: "clock \<Rightarrow> kpi list \<Rightarrow> store \<Rightarrow> store" where
  "setKpis clk ks st =
     st\<lparr>kpis := KpiArray ks, lastUpdated := (lastUpdated st)\<lparr>lu_kpis := Some (nowIso clk)\<rparr>\<rparr>"

definition addAuditLog :: "audit_log \<Rightarrow> store \<Rightarrow> store" where
  "addAuditLog entry st = st\<lparr>auditLogs := entry # auditLogs st\<rparr>"

subsection \<open>Recommendation actions\<close>

definition acceptRecommendation_start ::
  "string \<Rightarrow> store \<Rightarrow> error_value + (store \<times> audit_draft) \<times> store" where
  "acceptRecommendation_start recId st =
     (let state = st in
      case find (\<lambda>r. rec_id r = recId) (recommendations state) of
        None \<Rightarrow> Inl (Error (''Recommendation '' @ recId @ '' not found''))
      | Some recommendation \<Rightarrow>
          let auditLog =
                createAuditLog ''Recommendation Accepted'' ''System User''
                  (Some (JObject [(''recommendationId'', JString recId),
                                  (''action'', JString (rec_action recommendation))]))
                  (rec_trainId recommendation) (Some recId)
                  (Some ''User accepted AI recommendation'')
          in Inr ((state, auditLog), st\<lparr>loading := True, error := None\<rparr>))"

definition acceptRecommendation_resume ::
  "clock \<Rightarrow> string \<Rightarrow> error_value + unit \<Rightarrow> store \<times> audit_draft \<Rightarrow> store
     \<Rightarrow> (error_value + unit) \<times> store" where
  "acceptRecommendation_resume clk recId audited kept cur =
     (case kept of (state, auditLog) \<Rightarrow>
        (case audited of
           Inr u \<Rightarrow>
             let updatedRecommendations =
                   map (\<lambda>r. if rec_id r = recId then r\<lparr>rec_status := Some Accepted\<rparr> else r)
                     (recommendations state)
             in (Inr (),
                 cur\<lparr>recommendations := updatedRecommendations,
                     auditLogs :=
                       with_id_timestamp auditLog (''audit-'' @ decimal (nowMs clk)) (nowIso clk)
                         # auditLogs state,
                     loading := False\<rparr>)
         | Inl e \<Rightarrow>
             (Inl e, cur\<lparr>error := Some ''Failed to accept recommendation'', loading := False\<rparr>)))"

definition acceptRecommendation ::
  "clock \<Rightarrow> string \<Rightarrow> 'r fetch_result \<Rightarrow> store \<Rightarrow> (error_value + unit) \<times> store" where
  "acceptRecommendation clk recId net st =
     (case acceptRecommendation_start recId st of
        Inl e \<Rightarrow> (Inl e, st)
      | Inr (kept, st1) \<Rightarrow> acceptRecommendation_resume clk recId (postAudit net) kept st1)"

definition overrideRecommendation_start ::
  "string \<Rightarrow> string \<Rightarrow> store \<Rightarrow> error_value + (store \<times> alternative \<times> audit_draft) \<times> store" where
  "overrideRecommendation_start recId altId st =
     (let state = st;
          not_found =
            Inl (Error (''Recommendation '' @ recId @ '' or alternative '' @ altId @ '' not found''))
      in
      case find (\<lambda>r. rec_id r = recId) (recommendations state) of
        None \<Rightarrow> not_found
      | Some recommendation \<Rightarrow>
          (case find (\<lambda>a. alt_id a = altId) (rec_alternatives recommendation) of
             None \<Rightarrow> not_found
           | Some alternative \<Rightarrow>
               let auditLog =
                     createAuditLog ''Recommendation Overridden'' ''System User''
                       (Some (JObject [(''recommendationId'', JString recId),
                                       (''alternativeId'', JString altId),
                                       (''originalAction'', JString (rec_action recommendation)),
                                       (''selectedAction'', JString (alt_action alternative))]))
                       (rec_trainId recommendation) (Some recId)
                       (Some (''User selected alternative: '' @ alt_action alternative))
               in Inr ((state, alternative, auditLog), st\<lparr>loading := True, error := None\<rparr>)))"

definition overrideRecommendation_resume ::
  "clock \<Rightarrow> string \<Rightarrow> error_value + unit \<Rightarrow> store \<times> alternative \<times> audit_draft \<Rightarrow> store
     \<Rightarrow> (error_value + unit) \<times> store" where
  "overrideRecommendation_resume clk recId audited kept cur =
     (case kept of (state, alternative, auditLog) \<Rightarrow>
        (case audited of
           Inr u \<Rightarrow>
             let updatedRecommendations =
                   map (\<lambda>r. if rec_id r = recId
                             then r\<lparr>rec_status := Some Accepted, rec_action := alt_action alternative\<rparr>
                             else r)
                     (recommendations state)
             in (Inr (),
                 cur\<lparr>recommendations := updatedRecommendations,
                     auditLogs :=
                       with_id_timestamp auditLog (''audit-'' @ decimal (nowMs clk)) (nowIso clk)
                         # auditLogs state,
                     loading := False\<rparr>)
         | Inl e \<Rightarrow>
             (Inl e, cur\<lparr>error := Some ''Failed to override recommendation'', loading := False\<rparr>)))"

definition overrideRecommendation ::
  "clock \<Rightarrow> string \<Rightarrow> string \<Rightarrow> 'r fetch_result \<Rightarrow> store \<Rightarrow> (error_value + unit) \<times> store" where
  "overrideRecommendation clk recId altId net st =
     (case overrideRecommendation_start recId altId st of
        Inl e \<Rightarrow> (Inl e, st)
      | Inr (kept, st1) \<Rightarrow> overrideRecommendation_resume clk recId (postAudit net) kept st1)"

definition rejectRecommendation_start ::
  "string \<Rightarrow> string \<Rightarrow> store \<Rightarrow> error_value + (store \<times> audit_draft) \<times> store" where
  "rejectRecommendation_start recId reason st =
     (let state = st in
      case find (\<lambda>r. rec_id r = recId) (recommendations state) of
        None \<Rightarrow> Inl (Error (''Recommendation '' @ recId @ '' not found''))
      | Some recommendation \<Rightarrow>
          let auditLog =
                createAuditLog ''Recommendation Rejected'' ''System User''
                  (Some (JObject [(''recommendationId'', JString recId),
                                  (''action'', JString (rec_action recommendation))]))
                  (rec_trainId recommendation) (Some recId) (Some reason)
          in Inr ((state, auditLog), st\<lparr>loading := True, error := None\<rparr>))"

definition rejectRecommendation_resume ::
  "clock \<Rightarrow> string \<Rightarrow> error_value + unit \<Rightarrow> store \<times> audit_draft \<Rightarrow> store
     \<Rightarrow> (error_value + unit) \<times> store" where
  "rejectRecommendation_resume clk recId audited kept cur =
     (case kept of (state, auditLog) \<Rightarrow>
        (case audited of
           Inr u \<Rightarrow>
             let updatedRecommendations =
                   map (\<lambda>r. if rec_id r = recId then r\<lparr>rec_status := Some Rejected\<rparr> else r)
                     (recommendations state)
             in (Inr (),
                 cur\<lparr>recommendations := updatedRecommendations,
                     auditLogs :=
                       with_id_timestamp auditLog (''audit-'' @ decimal (nowMs clk)) (nowIso clk)
                         # auditLogs state,
                     loading := False\<rparr>)
         | Inl e \<Rightarrow>
             (Inl e, cur\<lparr>error := Some ''Failed to reject recommendation'', loading := False\<rparr>)))"

definition rejectRecommendation ::
  "clock \<Rightarrow> string \<Rightarrow> string \<Rightarrow> 'r fetch_result \<Rightarrow> store \<Rightarrow> (error_value + unit) \<times> store" where
  "rejectRecommendation clk recId reason net st =
     (case rejectRecommendation_start recId reason st of
        Inl e \<Rightarrow> (Inl e, st)
      | Inr (kept, st1) \<Rightarrow> rejectRecommendation_resume clk recId (postAudit net) kept st1)"

subsection \<open>Simulation action\<close>

text \<open>
  \<open>runSimulation\<close> awaits twice: the simulator, then \<open>postAudit\<close>. Its first block sets
  \<open>loading\<close>; the block after the simulator has settled builds the audit draft and touches
  the store only when the simulator rejected; the last block commits with
  \<open>set(state => ...)\<close>, which reads the store as it is at that moment.
\<close>

definition runSimulation_start :: "store \<Rightarrow> store" where
  "runSimulation_start st = st\<lparr>loading := True, error := None\<rparr>"

definition runSimulation_auditLog :: "what_if_payload \<Rightarrow> simulation_result \<Rightarrow> audit_draft" where
  "runSimulation_auditLog payload result =
     createAuditLog ''What-If Simulation Executed'' ''System User''
       (Some (JObject
                [(''scenario'', json_of_payload payload),
                 (''results'',
                    JObject [(''scenarioId'', JString (sim_scenarioId result)),
                             (''projectedKPIs'',
                                json_of_projected_kpis (sim_projectedKPIs result))])]))
       (Some (wp_trainId payload)) None
       (Some (''Simulated scenario: '' @ or_else (wp_scenarioName payload) ''Unnamed scenario''))"

definition runSimulation_simulated ::
  "what_if_payload \<Rightarrow> error_value + simulation_result \<Rightarrow> store
     \<Rightarrow> (error_value + simulation_result \<times> audit_draft) \<times> store" where
  "runSimulation_simulated payload simulated cur =
     (case simulated of
        Inr result \<Rightarrow> (Inr (result, runSimulation_auditLog payload result), cur)
      | Inl e \<Rightarrow> (Inl e, cur\<lparr>error := Some ''Failed to run simulation'', loading := False\<rparr>))"

definition runSimulation_resume ::
  "clock \<Rightarrow> simulation_result \<times> audit_draft \<Rightarrow> error_value + unit \<Rightarrow> store
     \<Rightarrow> (error_value + simulation_result) \<times> store" where
  "runSimulation_resume clk kept audited cur =
     (case kept of (result, auditLog) \<Rightarrow>
        (case audited of
           Inr u \<Rightarrow>
             (Inr result,
              cur\<lparr>auditLogs :=
                    with_id_timestamp auditLog (''audit-'' @ decimal (nowMs clk)) (nowIso clk)
                      # auditLogs cur,
                  loading := False\<rparr>)
         | Inl e \<Rightarrow>
             (Inl e, cur\<lparr>error := Some ''Failed to run simulation'', loading := False\<rparr>)))"

text \<open>One whole run: \<open>clk\<close> is read by the simulator adapter's \<open>catch\<close>, \<open>clk'\<close> by the
  last block.\<close>

definition runSimulation ::
  "clock \<Rightarrow> clock \<Rightarrow> what_if_payload \<Rightarrow> simulation_result api_response fetch_result
     \<Rightarrow> 'r fetch_result \<Rightarrow> store \<Rightarrow> (error_value + simulation_result) \<times> store" where
  "runSimulation clk clk' payload sim_net audit_net st =
     (case runSimulation_simulated payload (runWhatIfScenario clk sim_net)
             (runSimulation_start st) of
        (Inl e, st1) \<Rightarrow> (Inl e, st1)
      | (Inr kept, st1) \<Rightarrow> runSimulation_resume clk' kept (postAudit audit_net) st1)"

subsection \<open>Chat actions\<close>

definition store_error_text :: string where
  "store_error_text = ''Sorry, I encountered an error processing your message. Please try again.''"

text \<open>The locals \<open>userMessage\<close> and \<open>errorMessage\<close> of \<open>sendChatMessage\<close>.\<close>

definition userMessage :: "clock \<Rightarrow> string \<Rightarrow> chat_message" where
  "userMessage clk txt =
     \<lparr>msg_id = ''msg-'' @ decimal (nowMs clk) @ ''-user'', msg_role = User,
      msg_text = txt, msg_timestamp = nowIso clk, msg_references = None,
      msg_intent = None, msg_confidence = None, msg_actionable = None\<rparr>"

definition errorMessage :: "clock \<Rightarrow> chat_message" where
  "errorMessage clk =
     \<lparr>msg_id = ''msg-'' @ decimal (nowMs clk) @ ''-error'', msg_role = Assistant,
      msg_text = store_error_text, msg_timestamp = nowIso clk,
      msg_references = None, msg_intent = None, msg_confidence = None,
      msg_actionable = None\<rparr>"

text \<open>
  The first block of \<open>sendChatMessage\<close>: the session found in the snapshot, or a new one
  built in its place; the user's message appended; the store updated. The continuation keeps
  \<open>updatedSession\<close>.
\<close>

definition sendChatMessage_start ::
  "clock \<Rightarrow> string \<Rightarrow> string \<Rightarrow> store \<Rightarrow> chat_session \<times> store" where
  "sendChatMessage_start clk sid txt st =
     (let state = st;
          session =
            (case find (\<lambda>s. sessionId s = sid) (chatSessions state) of
               Some found \<Rightarrow> found
             | None \<Rightarrow>
                 \<lparr>sessionId = sid, messages = [], createdAt = nowIso clk,
                  lastActive = nowIso clk, chat_context = None\<rparr>);
          updatedSession =
            session\<lparr>messages := messages session @ [userMessage clk txt],
                      lastActive := nowIso clk\<rparr>
      in (updatedSession,
          st\<lparr>chatSessions :=
               (if list_ex (\<lambda>s. sessionId s = sid) (chatSessions st)
                then map (\<lambda>s. if sessionId s = sid then updatedSession else s) (chatSessions st)
                else chatSessions st @ [updatedSession])\<rparr>))"

text \<open>The block after the adapter's promise has settled; the \<open>catch\<close> branch is \<open>Inl\<close>.\<close>

definition sendChatMessage_resume ::
  "clock \<Rightarrow> string \<Rightarrow> error_value + chat_message list \<Rightarrow> chat_session \<Rightarrow> store \<Rightarrow> store" where
  "sendChatMessage_resume clk sid settled updatedSession cur =
     (case settled of
        Inr responses \<Rightarrow>
          let finalSession =
                updatedSession\<lparr>messages := messages updatedSession @ responses,
                                lastActive := nowIso clk\<rparr>
          in cur\<lparr>chatSessions :=
                   map (\<lambda>s. if sessionId s = sid then finalSession else s) (chatSessions cur)\<rparr>
      | Inl e \<Rightarrow>
          cur\<lparr>chatSessions :=
                map (\<lambda>s. if sessionId s = sid
                          then s\<lparr>messages := messages s @ [errorMessage clk]\<rparr>
                          else s)
                  (chatSessions cur)\<rparr>)"

text \<open>One whole call: \<open>clk\<close> is read by the first block, \<open>clk'\<close> by the adapter's \<open>catch\<close>
  and by the last block.\<close>

definition sendChatMessage ::
  "clock \<Rightarrow> clock \<Rightarrow> string \<Rightarrow> string \<Rightarrow> (chat_message list) api_response fetch_result
     \<Rightarrow> store \<Rightarrow> store" where
  "sendChatMessage clk clk' sid txt net st =
     (case sendChatMessage_start clk sid txt st of
        (updatedSession, st1) \<Rightarrow>
          sendChatMessage_resume clk' sid (chatbot_sendChatMessage clk' net) updatedSession st1)"

definition createChatSession :: "clock \<Rightarrow> store \<Rightarrow> string \<times> store" where
  "createChatSession clk st =
     (let sid = ''session-'' @ decimal (nowMs clk) @ ''-'' @ randomSuffix clk;
          newSession =
            \<lparr>sessionId = sid, messages = [], createdAt = nowIso clk,
             lastActive = nowIso clk, chat_context = None\<rparr>
      in (sid, st\<lparr>chatSessions := chatSessions st @ [newSession]\<rparr>))"

definition getChatSession :: "string \<Rightarrow> store \<Rightarrow> chat_session option" where
  "getChatSession sid st = find (\<lambda>s. sessionId s = sid) (chatSessions st)"

subsection \<open>Data fetching actions\<close>

text \<open>Every fetch action opens with \<open>set({ loading: true, error: null })\<close>.\<close>

definition fetch_start :: "store \<Rightarrow> store" where
  "fetch_start st = st\<lparr>loading := True, error := None\<rparr>"








definition fetchKpis_resume ::
  "clock \<Rightarrow> error_value + kpis_payload api_response \<Rightarrow> store \<Rightarrow> store" where
  "fetchKpis_resume clk settled cur =
     (case settled of
        Inr response \<Rightarrow>
          cur\<lparr>kpis := resp_data response, loading := False,
              lastUpdated := (lastUpdated cur)\<lparr>lu_kpis := Some (nowIso clk)\<rparr>\<rparr>
      | Inl e \<Rightarrow> cur\<lparr>error := Some ''Failed to fetch KPIs'', loading := False\<rparr>)"

definition fetchKpis :: "clock \<Rightarrow> kpis_payload api_response fetch_result \<Rightarrow> store \<Rightarrow> store" where
  "fetchKpis clk net st = fetchKpis_resume clk (apiFetch net) (fetch_start st)"



section \<open>Seed data (services/mockData.ts)\<close>

text \<open>\<open>mockRecommendations\<close> stamps \<open>createdAt\<close> with the time the module is loaded.\<close>

definition mockAlternatives :: "alternative list" where
  "mockAlternatives =
     [\<lparr>alt_id = ''alt-001'', alt_action = ''Reroute via Oxford'',
       alt_kpis = \<lparr>ki_delayReduction = 8, ki_throughput = 95, ki_safety = ''high'',
                    ki_cost = Some 1200, ki_passengerImpact = Some 15\<rparr>,
       alt_description =
         Some ''Alternative route through Oxford to avoid congestion at Reading'',
       alt_estimatedDuration = Some 45, alt_riskLevel = Some LowRisk\<rparr>,
      \<lparr>alt_id = ''alt-002'', alt_action = ''Priority scheduling at next junction'',
       alt_kpis = \<lparr>ki_delayReduction = 5, ki_throughput = 88, ki_safety = ''medium'',
                    ki_cost = Some 300, ki_passengerImpact = Some 8\<rparr>,
       alt_description =
         Some ''Give train priority at next signal to minimize further delays'',
       alt_estimatedDuration = Some 15, alt_riskLevel = Some MediumRisk\<rparr>]"

definition mockRecommendations :: "string \<Rightarrow> recommendation list" where
  "mockRecommendations created =
     [\<lparr>rec_id = ''rec-001'', rec_trainId = Some ''train-001'',
       rec_action = ''Implement dynamic rerouting for IC-2847'',
       rec_rationale =
         ''Train IC-2847 is experiencing 12-minute delay due to signal failure at Reading. '' @
         ''Rerouting via Oxford will reduce delay and improve overall network throughput.'',
       rec_confidence = 0.87,
       rec_kpis = \<lparr>ki_delayReduction = 8, ki_throughput = 95, ki_safety = ''high'',
                    ki_cost = Some 1200, ki_passengerImpact = Some 15\<rparr>,
       rec_alternatives = mockAlternatives, rec_createdAt = Some created,
       rec_priority = Some High, rec_status = Some Pending,
       rec_estimatedImpact =
         Some \<lparr>ei_delayReduction = 8, ei_costSavings = 2500, ei_passengerBenefit = 287\<rparr>\<rparr>]"

text \<open>The store of the concrete scenarios: the initial state holding the seeded
  recommendation \<open>rec-001\<close>, pending, with its alternatives \<open>alt-001\<close> and \<open>alt-002\<close>.\<close>

definition scenario_store :: store where
  "scenario_store =
     initial_store\<lparr>recommendations := mockRecommendations ''2025-01-01T00:00:00.000Z''\<rparr>"

definition scenario_clock :: clock where
  "scenario_clock =
     \<lparr>nowMs = 1735689600000, nowIso = ''2025-01-01T00:05:00.000Z'',
      randomSuffix = ''k3j9x0q1z''\<rparr>"

section \<open>Notions used to state the properties\<close>

text \<open>The messages of the session a reader finds under an id; none when there is no such
  session.\<close>

definition session_messages :: "string \<Rightarrow> store \<Rightarrow> chat_message list" where
  "session_messages sid st = (case getChatSession sid st of None \<Rightarrow> [] | Some s \<Rightarrow> messages s)"

text \<open>The clocks of the chat scenarios.\<close>

definition chat_clock :: clock where
  "chat_clock = \<lparr>nowMs = 41, nowIso = ''2025-01-01T00:00:00.041Z'', randomSuffix = ''a1b2c3d4e''\<rparr>"

definition chat_clock' :: clock where
  "chat_clock' = \<lparr>nowMs = 42, nowIso = ''2025-01-01T00:00:00.042Z'', randomSuffix = ''f5g6h7i8j''\<rparr>"

text \<open>The sessions of the store other than those with the given id, in order.\<close>

definition other_sessions :: "string \<Rightarrow> store \<Rightarrow> chat_session list" where
  "other_sessions sid st = filter (\<lambda>s. sessionId s \<noteq> sid) (chatSessions st)"

text \<open>
  A call of \<open>sendChatMessage\<close> on a fixed session: the two clock readings, the text and what
  the network does. \<open>sendChatMessages\<close> makes the calls one after the other, each finished
  before the next begins. \<open>exchange\<close> is what one call is expected to add to the session:
  the user's message, then the messages of the server's reply or, when the transport fails,
  the adapter's one message.
\<close>

type_synonym chat_call = "clock \<times> clock \<times> string \<times> (chat_message list) api_response fetch_result"

fun sendChatMessages :: "string \<Rightarrow> chat_call list \<Rightarrow> store \<Rightarrow> store" where
  "sendChatMessages sid [] st = st"
| "sendChatMessages sid (call # calls) st =
     (case call of
        (clk, clk', txt, net) \<Rightarrow>
          sendChatMessages sid calls (sendChatMessage clk clk' sid txt net st))"

definition exchange :: "chat_call \<Rightarrow> chat_message list" where
  "exchange call =
     (case call of
        (clk, clk', txt, net) \<Rightarrow>
          userMessage clk txt
            # (case apiFetch net of
                 Inr response \<Rightarrow> resp_data response
               | Inl e \<Rightarrow> [chatbot_error_message clk']))"

text \<open>A well-formed reply of the chat endpoint that carries no message.\<close>

definition empty_chat_reply :: "(chat_message list) api_response" where
  "empty_chat_reply =
     \<lparr>resp_data = [], resp_success = True, resp_message = None,
      resp_timestamp = ''2025-01-01T00:00:00.042Z'', resp_metadata = None\<rparr>"

text \<open>Requests to \<open>POST /audit\<close> handled one after the other; the result is the storage
  after the last.\<close>

fun audit_POSTs :: "(clock \<times> (string + audit_body)) list \<Rightarrow> audit_log list \<Rightarrow> audit_log list" where
  "audit_POSTs [] auditStorage = auditStorage"
| "audit_POSTs (req # reqs) auditStorage =
     (case req of
        (clk, request) \<Rightarrow> audit_POSTs reqs (snd (audit_POST clk request auditStorage)))"

text \<open>The audit scenarios: the clock of the browser and that of the server, the draft the
  store builds when \<open>rec-001\<close> is accepted, and a storage that is full, whose oldest entry
  is \<open>audit-old\<close>.\<close>

definition client_clock :: clock where
  "client_clock = \<lparr>nowMs = 41, nowIso = ''2025-01-01T00:00:00.041Z'', randomSuffix = ''a1b2c3d4e''\<rparr>"

definition server_clock :: clock where
  "server_clock = \<lparr>nowMs = 42, nowIso = ''2025-01-01T00:00:00.042Z'', randomSuffix = ''f5g6h7i8j''\<rparr>"

definition accepted_draft :: audit_draft where
  "accepted_draft =
     createAuditLog ''Recommendation Accepted'' ''System User''
       (Some (JObject [(''recommendationId'', JString ''rec-001''),
                       (''action'', JString ''Implement dynamic rerouting for IC-2847'')]))
       (Some ''train-001'') (Some ''rec-001'') (Some ''User accepted AI recommendation'')"

definition old_entry :: audit_log where
  "old_entry = with_id_timestamp accepted_draft ''audit-old'' ''2024-12-31T00:00:00.000Z''"

definition recent_entry :: audit_log where
  "recent_entry = with_id_timestamp accepted_draft ''audit-recent'' ''2024-12-31T12:00:00.000Z''"

definition full_storage :: "audit_log list" where
  "full_storage = replicate 999 recent_entry @ [old_entry]"


definition authorized_options :: "unit request_init" where
  "authorized_options =
     \<lparr>ri_method = Some ''GET'', ri_body = None,
      ri_headers = Some [''Authorization'' \<mapsto> ''Bearer token'']\<rparr>"

text \<open>A what-if scenario for the train of \<open>rec-001\<close>, and a reply of the simulator to it.\<close>

definition delay_payload :: what_if_payload where
  "delay_payload =
     \<lparr>wp_trainId = ''train-001'', wp_delayMinutes = Some 15, wp_rerouteTo = None,
      wp_scenarioName = Some ''Signal failure at Reading'', wp_additionalConstraints = None\<rparr>"

definition delay_result :: simulation_result where
  "delay_result =
     \<lparr>sim_scenarioId = ''sim-001'',
      sim_projectedKPIs =
        \<lparr>pk_delay = 18, pk_throughput = 131, pk_safety = ''medium'', pk_cost = None,
         pk_utilization = Some 82\<rparr>,
      sim_chartData = None, sim_comparisonData = None, sim_recommendations = None\<rparr>"

section \<open>KPI route (app/api/kpis/route.ts)\<close>

text \<open>
  The \<open>data\<close> of the reply of \<open>GET /kpis\<close> (app/api/kpis/route.ts). The jittered copies of
  the seed KPIs, the system health computed from them and the history come from
  \<open>Math.random\<close> and floating-point arithmetic and are taken as given.
\<close>

definition kpis_GET_data :: "clock \<Rightarrow> kpi list \<Rightarrow> string \<Rightarrow> json option \<Rightarrow> kpis_payload" where
  "kpis_GET_data clk updatedKPIs systemHealth history =
     KpiReport
       \<lparr>rep_kpis = updatedKPIs, rep_lastUpdated = nowIso clk, rep_networkStatus = ''normal'',
        rep_summary =
          \<lparr>sum_totalTrains = 4, sum_delayedTrains = 2, sum_activeRecommendations = 1,
           sum_systemHealth = systemHealth\<rparr>,
        rep_history = history\<rparr>"

section \<open>Verified properties\<close>

subsection \<open>Auxiliary facts\<close>

lemma find_map_update:
  "find P xs = Some r \<Longrightarrow> (\<And>x. P (f x) = P x) \<Longrightarrow>
   find P (map (\<lambda>x. if P x then f x else x) xs) = Some (f r)"
  by (induction xs) (auto split: if_splits)

lemma status_update_keeps_actions:
  "map rec_action (map (\<lambda>x. if rec_id x = recId then x\<lparr>rec_status := v\<rparr> else x) rs)
     = map rec_action rs"
  by (induction rs) auto

lemma status_update_all:
  "list_all (\<lambda>r'. rec_id r' \<noteq> recId \<or> rec_status r' = v)
     (map (\<lambda>x. if rec_id x = recId then x\<lparr>rec_status := v\<rparr> else x) rs)"
  by (induction rs) auto

lemma postAudit_ok: "postAudit (HttpResponse 200 (Some d)) = Inr ()"
  by (simp add: postAudit_def apiFetch_def response_ok_def)

lemma postAudit_failed:
  "postAudit (HttpResponse 500 (None :: unit option)) = Inl (Error ''HTTP error! status: 500'')"
  by (simp add: postAudit_def apiFetch_def response_ok_def decimal.simps)

lemma find_scenario:
  "find (\<lambda>r. rec_id r = ''rec-001'') (recommendations scenario_store)
     = Some (hd (mockRecommendations ''2025-01-01T00:00:00.000Z''))"
  by (simp add: scenario_store_def initial_store_def mockRecommendations_def)

lemma find_scenario_alt:
  "find (\<lambda>a. alt_id a = ''alt-001'')
     (rec_alternatives (hd (mockRecommendations ''2025-01-01T00:00:00.000Z'')))
     = Some (hd mockAlternatives)"
  by (simp add: mockRecommendations_def mockAlternatives_def)

text \<open>
  The block that follows a rejected \<open>postAudit\<close> writes \<open>error\<close> and \<open>loading\<close> only:
  on whatever store it runs, the recommendations and the audit log stay as they are.
\<close>

lemma decision_resume_failure:
  "recommendations (snd (acceptRecommendation_resume clk recId (Inl e) kept cur))
     = recommendations cur
   \<and> auditLogs (snd (acceptRecommendation_resume clk recId (Inl e) kept cur)) = auditLogs cur
   \<and> recommendations (snd (overrideRecommendation_resume clk recId (Inl e) kept' cur))
     = recommendations cur
   \<and> auditLogs (snd (overrideRecommendation_resume clk recId (Inl e) kept' cur)) = auditLogs cur
   \<and> recommendations (snd (rejectRecommendation_resume clk recId (Inl e) kept cur))
     = recommendations cur
   \<and> auditLogs (snd (rejectRecommendation_resume clk recId (Inl e) kept cur)) = auditLogs cur"
  by (simp add: acceptRecommendation_resume_def overrideRecommendation_resume_def
      rejectRecommendation_resume_def split: prod.splits)

subsection \<open>C1: a failed audit write commits no decision\<close>

text \<open>
  Claim C1. The recommendation \<open>recId\<close> is in the store and the awaited \<open>postAudit\<close> rejects
  with \<open>e\<close>. Then \<open>acceptRecommendation\<close> and \<open>rejectRecommendation\<close>, and
  \<open>overrideRecommendation\<close> for an alternative the recommendation has, reject with the same
  \<open>e\<close>; the store's recommendations afterwards are those before the call, so the status of
  the target is unchanged; \<open>error\<close> is set and \<open>loading\<close> is false.
\<close>

theorem decision_audit_failure:
  assumes audit: "postAudit net = Inl e"
      and target: "find (\<lambda>r. rec_id r = recId) (recommendations st) = Some r"
  shows "(case acceptRecommendation clk recId net st of
            (res, st') \<Rightarrow> res = Inl e \<and> recommendations st' = recommendations st
                            \<and> error st' \<noteq> None \<and> \<not> loading st')
       \<and> (case rejectRecommendation clk recId reason net st of
            (res, st') \<Rightarrow> res = Inl e \<and> recommendations st' = recommendations st
                            \<and> error st' \<noteq> None \<and> \<not> loading st')
       \<and> (find (\<lambda>a. alt_id a = altId) (rec_alternatives r) = None \<or>
           (case overrideRecommendation clk recId altId net st of
            (res, st') \<Rightarrow> res = Inl e \<and> recommendations st' = recommendations st
                            \<and> error st' \<noteq> None \<and> \<not> loading st'))"
  using assms
  by (auto simp: acceptRecommendation_def acceptRecommendation_start_def acceptRecommendation_resume_def
      rejectRecommendation_def rejectRecommendation_start_def rejectRecommendation_resume_def
      overrideRecommendation_def overrideRecommendation_start_def overrideRecommendation_resume_def Let_def)

text \<open>The three actions on the pending \<open>rec-001\<close> when the server answers 500.\<close>

theorem decision_audit_failure_witness:
  "postAudit (HttpResponse 500 (None :: unit option)) = Inl (Error ''HTTP error! status: 500'')
   \<and> find (\<lambda>r. rec_id r = ''rec-001'') (recommendations scenario_store)
       = Some (hd (mockRecommendations ''2025-01-01T00:00:00.000Z''))
   \<and> find (\<lambda>a. alt_id a = ''alt-001'')
        (rec_alternatives (hd (mockRecommendations ''2025-01-01T00:00:00.000Z''))) \<noteq> None
   \<and> (case acceptRecommendation scenario_clock ''rec-001'' (HttpResponse 500 (None :: unit option))
             scenario_store of
         (res, st') \<Rightarrow> res = Inl (Error ''HTTP error! status: 500'')
            \<and> recommendations st' = recommendations scenario_store
            \<and> error st' \<noteq> None \<and> \<not> loading st')
   \<and> (case rejectRecommendation scenario_clock ''rec-001'' ''Safety concern''
             (HttpResponse 500 (None :: unit option)) scenario_store of
         (res, st') \<Rightarrow> res = Inl (Error ''HTTP error! status: 500'')
            \<and> recommendations st' = recommendations scenario_store
            \<and> error st' \<noteq> None \<and> \<not> loading st')
   \<and> (case overrideRecommendation scenario_clock ''rec-001'' ''alt-001''
             (HttpResponse 500 (None :: unit option)) scenario_store of
         (res, st') \<Rightarrow> res = Inl (Error ''HTTP error! status: 500'')
            \<and> recommendations st' = recommendations scenario_store
            \<and> error st' \<noteq> None \<and> \<not> loading st')"
  using decision_audit_failure [OF postAudit_failed find_scenario,
      of scenario_clock "''Safety concern''" "''alt-001''"]
    postAudit_failed find_scenario find_scenario_alt
  by simp

subsection \<open>C2: accepting commits the status together with its audit entry\<close>

text \<open>
  Claim C2. The recommendation \<open>recId\<close> is in the store and the awaited \<open>postAudit\<close>
  resolves. Then \<open>acceptRecommendation\<close> resolves; the recommendation found under \<open>recId\<close>
  is the former one with status \<open>accepted\<close> and nothing else changed, every recommendation
  with that id is accepted, and no action text in the store has changed; the audit log is the
  former log with one entry put in front, and that entry's \<open>recId\<close> is \<open>recId\<close>. The action
  passes through one intermediate store, left by its first block, that has the recommendations
  and the log of the start; the final store is that one with the recommendations, the log and
  \<open>loading\<close> replaced in a single update.
\<close>

theorem accept_commits_status_with_audit:
  assumes audit: "postAudit net = Inr ()"
      and target: "find (\<lambda>r. rec_id r = recId) (recommendations st) = Some r"
  shows "case acceptRecommendation clk recId net st of
           (res, st') \<Rightarrow>
             res = Inr ()
           \<and> find (\<lambda>r. rec_id r = recId) (recommendations st')
               = Some (r\<lparr>rec_status := Some Accepted\<rparr>)
           \<and> list_all (\<lambda>r'. rec_id r' \<noteq> recId \<or> rec_status r' = Some Accepted)
               (recommendations st')
           \<and> map rec_action (recommendations st') = map rec_action (recommendations st)
           \<and> (\<exists>entry. auditLogs st' = entry # auditLogs st \<and> log_recId entry = Some recId)
           \<and> (\<exists>kept st1. acceptRecommendation_start recId st = Inr (kept, st1)
                 \<and> recommendations st1 = recommendations st \<and> auditLogs st1 = auditLogs st
                 \<and> st' = st1\<lparr>recommendations := recommendations st',
                              auditLogs := auditLogs st', loading := False\<rparr>)"
proof -
  define upd where
    "upd = map (\<lambda>x. if rec_id x = recId then x\<lparr>rec_status := Some Accepted\<rparr> else x)
             (recommendations st)"
  define draft where
    "draft = createAuditLog ''Recommendation Accepted'' ''System User''
                  (Some (JObject [(''recommendationId'', JString recId),
                                  (''action'', JString (rec_action r))]))
                  (rec_trainId r) (Some recId) (Some ''User accepted AI recommendation'')"
  define entry where
    "entry = with_id_timestamp draft (''audit-'' @ decimal (nowMs clk)) (nowIso clk)"
  define st2 where
    "st2 = st\<lparr>loading := True, error := None, recommendations := upd,
              auditLogs := entry # auditLogs st, loading := False\<rparr>"
  have start: "acceptRecommendation_start recId st
                 = Inr ((st, draft), st\<lparr>loading := True, error := None\<rparr>)"
    using target by (simp add: acceptRecommendation_start_def draft_def)
  have run: "acceptRecommendation clk recId net st = (Inr (), st2)"
    using audit by (simp add: acceptRecommendation_def start acceptRecommendation_resume_def
        upd_def entry_def st2_def)
  have recs: "recommendations st2 = upd" and logs: "auditLogs st2 = entry # auditLogs st"
    by (simp_all add: st2_def)
  have f: "find (\<lambda>r. rec_id r = recId) upd = Some (r\<lparr>rec_status := Some Accepted\<rparr>)"
    unfolding upd_def using target by (rule find_map_update) simp
  have a: "map rec_action upd = map rec_action (recommendations st)"
    unfolding upd_def by (rule status_update_keeps_actions)
  have all: "list_all (\<lambda>r'. rec_id r' \<noteq> recId \<or> rec_status r' = Some Accepted) upd"
    unfolding upd_def by (rule status_update_all)
  have e: "log_recId entry = Some recId"
    by (simp add: entry_def draft_def with_id_timestamp_def createAuditLog_def)
  have single: "\<exists>kept st1. acceptRecommendation_start recId st = Inr (kept, st1)
                 \<and> recommendations st1 = recommendations st \<and> auditLogs st1 = auditLogs st
                 \<and> st2 = st1\<lparr>recommendations := recommendations st2,
                              auditLogs := auditLogs st2, loading := False\<rparr>"
    apply (rule exI [of _ "(st, draft)"])
    apply (rule exI [of _ "st\<lparr>loading := True, error := None\<rparr>"])
    apply (simp add: start)
    apply (simp add: st2_def)
    done
  have "\<exists>entry. auditLogs st2 = entry # auditLogs st \<and> log_recId entry = Some recId"
    using logs e by blast
  with f a all single show ?thesis
    unfolding run prod.case recs by blast
qed

text \<open>Accepting the pending \<open>rec-001\<close> when the server answers 200.\<close>

theorem accept_commits_status_with_audit_witness:
  "postAudit (HttpResponse 200 (Some ())) = Inr ()
   \<and> find (\<lambda>r. rec_id r = ''rec-001'') (recommendations scenario_store)
       = Some (hd (mockRecommendations ''2025-01-01T00:00:00.000Z''))
   \<and> (case acceptRecommendation scenario_clock ''rec-001'' (HttpResponse 200 (Some ()))
             scenario_store of
         (res, st') \<Rightarrow>
             res = Inr ()
           \<and> find (\<lambda>r. rec_id r = ''rec-001'') (recommendations st')
               = Some ((hd (mockRecommendations ''2025-01-01T00:00:00.000Z''))
                         \<lparr>rec_status := Some Accepted\<rparr>)
           \<and> list_all (\<lambda>r'. rec_id r' \<noteq> ''rec-001'' \<or> rec_status r' = Some Accepted)
               (recommendations st')
           \<and> map rec_action (recommendations st') = map rec_action (recommendations scenario_store)
           \<and> (\<exists>entry. auditLogs st' = entry # auditLogs scenario_store
                 \<and> log_recId entry = Some ''rec-001'')
           \<and> (\<exists>kept st1. acceptRecommendation_start ''rec-001'' scenario_store = Inr (kept, st1)
                 \<and> recommendations st1 = recommendations scenario_store
                 \<and> auditLogs st1 = auditLogs scenario_store
                 \<and> st' = st1\<lparr>recommendations := recommendations st',
                              auditLogs := auditLogs st', loading := False\<rparr>))"
  using accept_commits_status_with_audit [OF postAudit_ok find_scenario, of scenario_clock "()"]
    postAudit_ok [of "()"] find_scenario
  by blast

subsection \<open>Auxiliary facts about overriding\<close>

lemma override_update_all:
  "list_all (\<lambda>r'. rec_id r' \<noteq> recId \<or> (rec_status r' = v \<and> rec_action r' = w))
     (map (\<lambda>x. if rec_id x = recId then x\<lparr>rec_status := v, rec_action := w\<rparr> else x) rs)"
  by (induction rs) auto

subsection \<open>C3: overriding commits the chosen alternative\<close>

text \<open>
  Claim C3. The recommendation \<open>recId\<close> is in the store, \<open>altId\<close> is one of its
  alternatives and the awaited \<open>postAudit\<close> resolves. Then \<open>overrideRecommendation\<close>
  resolves; the recommendation found under \<open>recId\<close> is the former one with status
  \<open>accepted\<close> and the alternative's action text, and so is every recommendation with that id;
  the audit log is the former log with one entry in front, whose \<open>recId\<close> is \<open>recId\<close> and
  whose details record the original action and the selected action.
\<close>

theorem override_commits_alternative:
  assumes audit: "postAudit net = Inr ()"
      and target: "find (\<lambda>r. rec_id r = recId) (recommendations st) = Some r"
      and chosen: "find (\<lambda>a. alt_id a = altId) (rec_alternatives r) = Some a"
  shows "case overrideRecommendation clk recId altId net st of
           (res, st') \<Rightarrow>
             res = Inr ()
           \<and> find (\<lambda>r. rec_id r = recId) (recommendations st')
               = Some (r\<lparr>rec_status := Some Accepted, rec_action := alt_action a\<rparr>)
           \<and> list_all (\<lambda>r'. rec_id r' \<noteq> recId
                              \<or> (rec_status r' = Some Accepted \<and> rec_action r' = alt_action a))
               (recommendations st')
           \<and> (\<exists>entry. auditLogs st' = entry # auditLogs st
                 \<and> log_recId entry = Some recId
                 \<and> log_details entry =
                     Some (JObject [(''recommendationId'', JString recId),
                                    (''alternativeId'', JString altId),
                                    (''originalAction'', JString (rec_action r)),
                                    (''selectedAction'', JString (alt_action a))]))"
proof -
  define upd where
    "upd = map (\<lambda>x. if rec_id x = recId
                     then x\<lparr>rec_status := Some Accepted, rec_action := alt_action a\<rparr> else x)
             (recommendations st)"
  define draft where
    "draft = createAuditLog ''Recommendation Overridden'' ''System User''
               (Some (JObject [(''recommendationId'', JString recId),
                               (''alternativeId'', JString altId),
                               (''originalAction'', JString (rec_action r)),
                               (''selectedAction'', JString (alt_action a))]))
               (rec_trainId r) (Some recId)
               (Some (''User selected alternative: '' @ alt_action a))"
  define entry where
    "entry = with_id_timestamp draft (''audit-'' @ decimal (nowMs clk)) (nowIso clk)"
  define st2 where
    "st2 = st\<lparr>loading := True, error := None, recommendations := upd,
              auditLogs := entry # auditLogs st, loading := False\<rparr>"
  have start: "overrideRecommendation_start recId altId st
                 = Inr ((st, a, draft), st\<lparr>loading := True, error := None\<rparr>)"
    using target chosen by (simp add: overrideRecommendation_start_def draft_def)
  have run: "overrideRecommendation clk recId altId net st = (Inr (), st2)"
    using audit by (simp add: overrideRecommendation_def start overrideRecommendation_resume_def
        upd_def entry_def st2_def)
  have recs: "recommendations st2 = upd" and logs: "auditLogs st2 = entry # auditLogs st"
    by (simp_all add: st2_def)
  have f: "find (\<lambda>r. rec_id r = recId) upd
             = Some (r\<lparr>rec_status := Some Accepted, rec_action := alt_action a\<rparr>)"
    unfolding upd_def using target
    by (rule find_map_update [where f = "\<lambda>x. x\<lparr>rec_status := Some Accepted, rec_action := alt_action a\<rparr>"]) simp
  have all: "list_all (\<lambda>r'. rec_id r' \<noteq> recId
                              \<or> (rec_status r' = Some Accepted \<and> rec_action r' = alt_action a)) upd"
    unfolding upd_def by (rule override_update_all)
  have e: "log_recId entry = Some recId"
    and d: "log_details entry =
                     Some (JObject [(''recommendationId'', JString recId),
                                    (''alternativeId'', JString altId),
                                    (''originalAction'', JString (rec_action r)),
                                    (''selectedAction'', JString (alt_action a))])"
    by (simp_all add: entry_def draft_def with_id_timestamp_def createAuditLog_def)
  have "\<exists>entry. auditLogs st2 = entry # auditLogs st \<and> log_recId entry = Some recId
                 \<and> log_details entry =
                     Some (JObject [(''recommendationId'', JString recId),
                                    (''alternativeId'', JString altId),
                                    (''originalAction'', JString (rec_action r)),
                                    (''selectedAction'', JString (alt_action a))])"
    using logs e d by blast
  with f all show ?thesis
    unfolding run prod.case recs by blast
qed

text \<open>The concrete scenario: overriding the pending \<open>rec-001\<close> with \<open>alt-001\<close>.\<close>

lemma override_scenario:
  "map (\<lambda>r. (rec_id r, rec_status r, rec_action r))
     (recommendations (snd (overrideRecommendation scenario_clock ''rec-001'' ''alt-001''
                              (HttpResponse 200 (Some ())) scenario_store)))
     = [(''rec-001'', Some Accepted, ''Reroute via Oxford'')]"
  by (simp add: overrideRecommendation_def overrideRecommendation_start_def
      overrideRecommendation_resume_def postAudit_ok scenario_store_def initial_store_def
      mockRecommendations_def mockAlternatives_def)

text \<open>The same scenario as an instance of the theorem; \<open>alt-001\<close> is ``Reroute via Oxford''.\<close>

theorem override_commits_alternative_witness:
  "postAudit (HttpResponse 200 (Some ())) = Inr ()
   \<and> find (\<lambda>r. rec_id r = ''rec-001'') (recommendations scenario_store)
       = Some (hd (mockRecommendations ''2025-01-01T00:00:00.000Z''))
   \<and> find (\<lambda>a. alt_id a = ''alt-001'')
        (rec_alternatives (hd (mockRecommendations ''2025-01-01T00:00:00.000Z'')))
       = Some (hd mockAlternatives)
   \<and> rec_status (hd (mockRecommendations ''2025-01-01T00:00:00.000Z'')) = Some Pending
   \<and> alt_action (hd mockAlternatives) = ''Reroute via Oxford''
   \<and> (case overrideRecommendation scenario_clock ''rec-001'' ''alt-001''
             (HttpResponse 200 (Some ())) scenario_store of
         (res, st') \<Rightarrow>
             res = Inr ()
           \<and> find (\<lambda>r. rec_id r = ''rec-001'') (recommendations st')
               = Some ((hd (mockRecommendations ''2025-01-01T00:00:00.000Z''))
                         \<lparr>rec_status := Some Accepted,
                          rec_action := alt_action (hd mockAlternatives)\<rparr>)
           \<and> list_all (\<lambda>r'. rec_id r' \<noteq> ''rec-001''
                              \<or> (rec_status r' = Some Accepted
                                  \<and> rec_action r' = alt_action (hd mockAlternatives)))
               (recommendations st')
           \<and> (\<exists>entry. auditLogs st' = entry # auditLogs scenario_store
                 \<and> log_recId entry = Some ''rec-001''
                 \<and> log_details entry =
                     Some (JObject [(''recommendationId'', JString ''rec-001''),
                                    (''alternativeId'', JString ''alt-001''),
                                    (''originalAction'',
                                       JString (rec_action
                                         (hd (mockRecommendations ''2025-01-01T00:00:00.000Z'')))),
                                    (''selectedAction'',
                                       JString (alt_action (hd mockAlternatives)))])))"
proof -
  have p: "rec_status (hd (mockRecommendations ''2025-01-01T00:00:00.000Z'')) = Some Pending"
    by (simp add: mockRecommendations_def)
  have o: "alt_action (hd mockAlternatives) = ''Reroute via Oxford''"
    by (simp add: mockAlternatives_def)
  from override_commits_alternative [OF postAudit_ok find_scenario find_scenario_alt,
      of scenario_clock "()"]
    postAudit_ok [of "()"] find_scenario find_scenario_alt p o
  show ?thesis by blast
qed

subsection \<open>Auxiliary facts about the chat actions\<close>

lemma find_exists: "find P xs = Some x \<Longrightarrow> P x \<and> list_ex P xs"
  by (induction xs) (auto split: if_splits)

lemma find_None_list_ex: "(find P xs = None) = (\<not> list_ex P xs)"
  by (induction xs) auto

lemma find_map_replace:
  "P u \<Longrightarrow> find P (map (\<lambda>s. if P s then u else s) xs) = (if list_ex P xs then Some u else None)"
  by (induction xs) auto

lemma find_snoc: "\<not> list_ex P xs \<Longrightarrow> P u \<Longrightarrow> find P (xs @ [u]) = Some u"
  by (induction xs) auto

lemma map_replace_absent: "\<not> list_ex P xs \<Longrightarrow> map (\<lambda>s. if P s then f s else s) xs = xs"
  by (induction xs) auto

lemma sendChatMessage_start_session:
  "sessionId (fst (sendChatMessage_start clk sid txt st)) = sid
   \<and> messages (fst (sendChatMessage_start clk sid txt st))
       = session_messages sid st @ [userMessage clk txt]
   \<and> find (\<lambda>s. sessionId s = sid) (chatSessions (snd (sendChatMessage_start clk sid txt st)))
       = Some (fst (sendChatMessage_start clk sid txt st))"
proof (cases "find (\<lambda>s. sessionId s = sid) (chatSessions st)")
  case None
  then have ne: "\<not> list_ex (\<lambda>s. sessionId s = sid) (chatSessions st)"
    by (simp add: find_None_list_ex)
  show ?thesis
    using None ne
    by (simp add: Let_def sendChatMessage_start_def session_messages_def getChatSession_def find_snoc)
next
  case (Some found)
  then have ex: "sessionId found = sid" "list_ex (\<lambda>s. sessionId s = sid) (chatSessions st)"
    using find_exists [of "\<lambda>s. sessionId s = sid" "chatSessions st" found] by simp_all
  show ?thesis
    using Some ex
    by (simp add: Let_def sendChatMessage_start_def session_messages_def getChatSession_def
        find_map_replace)
qed

lemma sendChatMessage_messages:
  "session_messages sid (sendChatMessage clk clk' sid txt net st)
     = session_messages sid st @ userMessage clk txt
         # (case apiFetch net of Inr response \<Rightarrow> resp_data response
                               | Inl e \<Rightarrow> [chatbot_error_message clk'])"
proof -
  obtain upd st1 where start: "sendChatMessage_start clk sid txt st = (upd, st1)"
    by (cases "sendChatMessage_start clk sid txt st")
  from sendChatMessage_start_session [of clk sid "txt" st] start
  have sid: "sessionId upd = sid"
    and msgs: "messages upd = session_messages sid st @ [userMessage clk txt]"
    and found: "find (\<lambda>s. sessionId s = sid) (chatSessions st1) = Some upd"
    by simp_all
  from found have ex: "list_ex (\<lambda>s. sessionId s = sid) (chatSessions st1)"
    using find_exists by fastforce
  show ?thesis
    using sid msgs ex
    by (simp add: sendChatMessage_def start sendChatMessage_resume_def chatbot_sendChatMessage_def
        session_messages_def getChatSession_def find_map_replace split: sum.splits)
qed

subsection \<open>C4: a session that is missing is inserted\<close>

text \<open>
  Claim C4 as stated fails: on the initial store, which holds no session, the first block of
  \<open>sendChatMessage\<close> already leaves a session with the given id in the store, and it is
  still there when the call has finished.
\<close>

theorem fallback_session_counterexample:
  "getChatSession ''session-x'' initial_store = None
   \<and> map sessionId
       (chatSessions (snd (sendChatMessage_start chat_clock ''session-x'' ''hello'' initial_store)))
       = [''session-x'']
   \<and> map sessionId
       (chatSessions (sendChatMessage chat_clock chat_clock' ''session-x'' ''hello''
                        (FetchThrows ''offline'') initial_store))
       = [''session-x'']"
  by (simp add: Let_def getChatSession_def initial_store_def sendChatMessage_def sendChatMessage_start_def
      sendChatMessage_resume_def chatbot_sendChatMessage_def apiFetch_def)

text \<open>
  Claim C4 as amended. When no session of the store has the id, the first block of
  \<open>sendChatMessage\<close> appends to the session collection a new session with that id holding
  the user's message; when the call has finished, the collection is the former one followed
  by that session, which then holds the user's message and the messages the adapter
  resolved with.
\<close>

theorem sendChatMessage_inserts_missing_session:
  assumes absent: "getChatSession sid st = None"
  shows "chatSessions (snd (sendChatMessage_start clk sid txt st))
           = chatSessions st
             @ [\<lparr>sessionId = sid, messages = [userMessage clk txt], createdAt = nowIso clk,
                 lastActive = nowIso clk, chat_context = None\<rparr>]
       \<and> (\<exists>rs. chatbot_sendChatMessage clk' net = Inr rs
             \<and> chatSessions (sendChatMessage clk clk' sid txt net st)
                 = chatSessions st
                   @ [\<lparr>sessionId = sid, messages = userMessage clk txt # rs,
                       createdAt = nowIso clk, lastActive = nowIso clk',
                       chat_context = None\<rparr>])"
proof -
  from absent have none: "find (\<lambda>s. sessionId s = sid) (chatSessions st) = None"
    by (simp add: getChatSession_def)
  then have ne: "\<not> list_ex (\<lambda>s. sessionId s = sid) (chatSessions st)"
    by (simp add: find_None_list_ex)
  have start: "sendChatMessage_start clk sid txt st
                 = (\<lparr>sessionId = sid, messages = [userMessage clk txt], createdAt = nowIso clk,
                     lastActive = nowIso clk, chat_context = None\<rparr>,
                    st\<lparr>chatSessions := chatSessions st
                         @ [\<lparr>sessionId = sid, messages = [userMessage clk txt],
                             createdAt = nowIso clk, lastActive = nowIso clk,
                             chat_context = None\<rparr>]\<rparr>)"
    using none ne by (simp add: Let_def sendChatMessage_start_def)
  obtain rs where rs: "chatbot_sendChatMessage clk' net = Inr rs"
    by (cases "apiFetch net") (simp_all add: chatbot_sendChatMessage_def)
  have "chatSessions (sendChatMessage clk clk' sid txt net st)
          = chatSessions st
            @ [\<lparr>sessionId = sid, messages = userMessage clk txt # rs,
                createdAt = nowIso clk, lastActive = nowIso clk', chat_context = None\<rparr>]"
    using ne by (simp add: sendChatMessage_def start rs sendChatMessage_resume_def
        map_replace_absent)
  with rs start show ?thesis by simp
qed

theorem sendChatMessage_inserts_missing_session_witness:
  "getChatSession ''session-x'' initial_store = None
   \<and> chatSessions (snd (sendChatMessage_start chat_clock ''session-x'' ''hello'' initial_store))
       = chatSessions initial_store
         @ [\<lparr>sessionId = ''session-x'', messages = [userMessage chat_clock ''hello''],
             createdAt = nowIso chat_clock, lastActive = nowIso chat_clock,
             chat_context = None\<rparr>]
   \<and> (\<exists>rs. chatbot_sendChatMessage chat_clock' (FetchThrows ''offline'') = Inr rs
         \<and> chatSessions (sendChatMessage chat_clock chat_clock' ''session-x'' ''hello''
                            (FetchThrows ''offline'') initial_store)
             = chatSessions initial_store
               @ [\<lparr>sessionId = ''session-x'', messages = userMessage chat_clock ''hello'' # rs,
                   createdAt = nowIso chat_clock, lastActive = nowIso chat_clock',
                   chat_context = None\<rparr>])"
proof -
  have h: "getChatSession ''session-x'' initial_store = None"
    by (simp add: getChatSession_def initial_store_def)
  from sendChatMessage_inserts_missing_session [OF h, of chat_clock "''hello''" chat_clock'
      "FetchThrows ''offline''"] h
  show ?thesis by blast
qed

subsection \<open>Auxiliary facts about sessions with another id\<close>

lemma filter_map_replace:
  "(\<And>s. P s \<Longrightarrow> P (f s)) \<Longrightarrow>
   filter (\<lambda>s. \<not> P s) (map (\<lambda>s. if P s then f s else s) xs) = filter (\<lambda>s. \<not> P s) xs"
  by (induction xs) auto

lemma other_sessions_start:
  "other_sessions sid (snd (sendChatMessage_start clk sid txt cur)) = other_sessions sid cur"
proof -
  let ?u = "fst (sendChatMessage_start clk sid txt cur)"
  have u: "sessionId ?u = sid"
    using sendChatMessage_start_session [of clk sid "txt" cur] by simp
  have "chatSessions (snd (sendChatMessage_start clk sid txt cur))
          = (if list_ex (\<lambda>s. sessionId s = sid) (chatSessions cur)
             then map (\<lambda>s. if sessionId s = sid then ?u else s) (chatSessions cur)
             else chatSessions cur @ [?u])"
    by (simp add: Let_def sendChatMessage_start_def)
  then show ?thesis
    using u filter_map_replace [of "\<lambda>s. sessionId s = sid" "\<lambda>s. ?u" "chatSessions cur"]
    by (simp add: other_sessions_def)
qed

lemma other_sessions_resume:
  assumes "sessionId upd = sid"
  shows "other_sessions sid (sendChatMessage_resume clk sid settled upd cur) = other_sessions sid cur"
proof (cases settled)
  case (Inl e)
  then show ?thesis
    using filter_map_replace [of "\<lambda>s. sessionId s = sid"
        "\<lambda>s. s\<lparr>messages := messages s @ [errorMessage clk]\<rparr>" "chatSessions cur"]
    by (simp add: other_sessions_def sendChatMessage_resume_def)
next
  case (Inr rs)
  then show ?thesis
    using assms filter_map_replace [of "\<lambda>s. sessionId s = sid"
        "\<lambda>s. upd\<lparr>messages := messages upd @ rs, lastActive := nowIso clk\<rparr>" "chatSessions cur"]
    by (simp add: other_sessions_def sendChatMessage_resume_def)
qed

lemma other_sessions_call:
  "other_sessions sid (sendChatMessage clk clk' sid txt net st) = other_sessions sid st"
proof -
  have u: "sessionId (fst (sendChatMessage_start clk sid txt st)) = sid"
    using sendChatMessage_start_session [of clk sid "txt" st] by simp
  show ?thesis
    using other_sessions_resume [OF u] other_sessions_start [of sid clk "txt" st]
    by (simp add: sendChatMessage_def case_prod_beta)
qed

lemma sendChatMessages_messages:
  "session_messages sid (sendChatMessages sid calls st)
     = session_messages sid st @ concat (map exchange calls)"
proof (induction calls arbitrary: st)
  case Nil
  show ?case by simp
next
  case (Cons call calls)
  obtain clk clk' m net where call: "call = (clk, clk', m, net)"
    by (cases call) auto
  show ?case
    by (simp add: call Cons.IH sendChatMessage_messages exchange_def)
qed

lemma sendChatMessages_others:
  "other_sessions sid (sendChatMessages sid calls st) = other_sessions sid st"
proof (induction calls arbitrary: st)
  case Nil
  show ?case by simp
next
  case (Cons call calls)
  obtain clk clk' m net where call: "call = (clk, clk', m, net)"
    by (cases call) auto
  show ?case
    by (simp add: call Cons.IH other_sessions_call)
qed

subsection \<open>C7: what a sequence of chat calls leaves in a session\<close>

text \<open>
  Claim C7 as stated fails in its bound \<open>N \<ge> 1\<close>: the adapter hands on the \<open>data\<close> of a
  successful reply as it is, and when that list is empty the call adds the user's message and
  nothing else. Two such calls leave two user messages next to each other.
\<close>

theorem chat_exchange_counterexample:
  "map msg_role
     (session_messages ''session-x''
        (sendChatMessages ''session-x''
           [(chat_clock, chat_clock', ''hello'', HttpResponse 200 (Some empty_chat_reply)),
            (chat_clock, chat_clock', ''anyone?'', HttpResponse 200 (Some empty_chat_reply))]
           initial_store))
     = [User, User]"
proof -
  have none: "session_messages ''session-x'' initial_store = []"
    by (simp add: session_messages_def getChatSession_def initial_store_def)
  show ?thesis
    unfolding sendChatMessages_messages none
    by (simp add: exchange_def apiFetch_def response_ok_def empty_chat_reply_def
        userMessage_def)
qed

text \<open>
  Claim C7 as amended. After any sequence of calls of \<open>sendChatMessage\<close> on one session, each
  finished before the next begins, the session's messages are those it had, followed, call by
  call, by the user's message and then the \<open>N \<ge> 0\<close> messages the adapter resolved with: the
  messages of the server's reply, in their order, or the adapter's single assistant message
  when the transport failed. The sessions with another id are what they were, in their order;
  this holds for each of the two blocks of a call on whatever store it runs, so calls on
  different sessions may interleave without touching each other's messages.
\<close>

theorem chat_messages_append_only:
  "session_messages sid (sendChatMessages sid calls st)
     = session_messages sid st @ concat (map exchange calls)
   \<and> other_sessions sid (sendChatMessages sid calls st) = other_sessions sid st
   \<and> other_sessions sid (snd (sendChatMessage_start clk sid txt cur)) = other_sessions sid cur
   \<and> other_sessions sid
       (sendChatMessage_resume clk' sid settled (fst (sendChatMessage_start clk sid txt st)) cur)
       = other_sessions sid cur
   \<and> (\<exists>rs. exchange (clk, clk', txt, net) = userMessage clk txt # rs
         \<and> msg_role (userMessage clk txt) = User
         \<and> (case apiFetch net of
               Inl e \<Rightarrow> rs = [chatbot_error_message clk']
                        \<and> msg_role (chatbot_error_message clk') = Assistant
             | Inr response \<Rightarrow> rs = resp_data response))"
proof -
  have u: "sessionId (fst (sendChatMessage_start clk sid txt st)) = sid"
    using sendChatMessage_start_session [of clk sid "txt" st] by simp
  have ex: "\<exists>rs. exchange (clk, clk', txt, net) = userMessage clk txt # rs
         \<and> msg_role (userMessage clk txt) = User
         \<and> (case apiFetch net of
               Inl e \<Rightarrow> rs = [chatbot_error_message clk']
                        \<and> msg_role (chatbot_error_message clk') = Assistant
             | Inr response \<Rightarrow> rs = resp_data response)"
    by (cases "apiFetch net")
      (simp_all add: exchange_def userMessage_def chatbot_error_message_def)
  show ?thesis
    using sendChatMessages_messages [of sid calls st] sendChatMessages_others [of sid calls st]
      other_sessions_start [of sid clk "txt" cur] other_sessions_resume [OF u, of clk' settled cur]
      ex
    by blast
qed

text \<open>Two calls on a session that is not in the store yet, the transport failing both times.\<close>

theorem chat_messages_append_only_witness:
  "map msg_role
     (session_messages ''session-x''
        (sendChatMessages ''session-x''
           [(chat_clock, chat_clock', ''hello'', FetchThrows ''offline''),
            (chat_clock, chat_clock', ''anyone?'', HttpResponse 503 None)]
           initial_store))
     = [User, Assistant, User, Assistant]
   \<and> other_sessions ''session-x''
       (sendChatMessages ''session-x''
           [(chat_clock, chat_clock', ''hello'', FetchThrows ''offline''),
            (chat_clock, chat_clock', ''anyone?'', HttpResponse 503 None)]
           initial_store)
     = []"
proof -
  have none: "session_messages ''session-x'' initial_store = []"
    by (simp add: session_messages_def getChatSession_def initial_store_def)
  have others: "other_sessions ''session-x'' initial_store = []"
    by (simp add: other_sessions_def initial_store_def)
  from chat_messages_append_only [of "''session-x''"
      "[(chat_clock, chat_clock', ''hello'', FetchThrows ''offline''),
        (chat_clock, chat_clock', ''anyone?'', HttpResponse 503 None)]" initial_store]
  show ?thesis
    by (simp add: none others exchange_def apiFetch_def response_ok_def userMessage_def
        chatbot_error_message_def)
qed

subsection \<open>C10: the chat adapter never rejects\<close>

text \<open>
  Claim C10. Whatever the transport does, the promise of the adapter's \<open>sendChatMessage\<close>
  resolves, so the store's \<open>sendChatMessage\<close> always continues in its \<open>try\<close> block and never
  in its \<open>catch\<close> block. When the transport fails (\<open>fetch\<close> throws, the status is not a
  success, or the body is not JSON), the adapter resolves with exactly one message, of role
  assistant and confidence 0, and the session gains the user's message followed by that
  message; its text is the adapter's, which is not the text of the store's own error message.
\<close>

theorem chat_adapter_never_rejects:
  "(\<exists>ms. chatbot_sendChatMessage clk' net = Inr ms
       \<and> sendChatMessage clk clk' sid txt net st
           = sendChatMessage_resume clk' sid (Inr ms)
               (fst (sendChatMessage_start clk sid txt st))
               (snd (sendChatMessage_start clk sid txt st)))
   \<and> (apiFetch net = Inl e \<longrightarrow>
         chatbot_sendChatMessage clk' net = Inr [chatbot_error_message clk']
       \<and> session_messages sid (sendChatMessage clk clk' sid txt net st)
           = session_messages sid st @ [userMessage clk txt, chatbot_error_message clk'])
   \<and> msg_role (chatbot_error_message clk') = Assistant
   \<and> msg_confidence (chatbot_error_message clk') = Some 0
   \<and> msg_text (chatbot_error_message clk') = chatbot_error_text
   \<and> msg_text (chatbot_error_message clk') \<noteq> msg_text (errorMessage clk')"
proof -
  have resolves: "\<exists>ms. chatbot_sendChatMessage clk' net = Inr ms
       \<and> sendChatMessage clk clk' sid txt net st
           = sendChatMessage_resume clk' sid (Inr ms)
               (fst (sendChatMessage_start clk sid txt st))
               (snd (sendChatMessage_start clk sid txt st))"
    by (cases "apiFetch net")
      (simp_all add: chatbot_sendChatMessage_def sendChatMessage_def case_prod_beta)
  have failure: "apiFetch net = Inl e \<longrightarrow>
         chatbot_sendChatMessage clk' net = Inr [chatbot_error_message clk']
       \<and> session_messages sid (sendChatMessage clk clk' sid txt net st)
           = session_messages sid st @ [userMessage clk txt, chatbot_error_message clk']"
    by (simp add: chatbot_sendChatMessage_def sendChatMessage_messages)
  have texts: "msg_text (chatbot_error_message clk') \<noteq> msg_text (errorMessage clk')"
    by (simp add: chatbot_error_message_def errorMessage_def chatbot_error_text_def
        store_error_text_def)
  have fields: "msg_role (chatbot_error_message clk') = Assistant"
    "msg_confidence (chatbot_error_message clk') = Some 0"
    "msg_text (chatbot_error_message clk') = chatbot_error_text"
    by (simp_all add: chatbot_error_message_def)
  from resolves failure texts fields show ?thesis by blast
qed

text \<open>A call that gets the answer 404 with a body that is not JSON.\<close>

theorem chat_adapter_never_rejects_witness:
  "apiFetch (HttpResponse 404 (None :: (chat_message list) api_response option))
     = Inl (Error ''HTTP error! status: 404'')
   \<and> chatbot_sendChatMessage chat_clock' (HttpResponse 404 None)
       = Inr [chatbot_error_message chat_clock']
   \<and> session_messages ''session-x''
       (sendChatMessage chat_clock chat_clock' ''session-x'' ''hello'' (HttpResponse 404 None)
          initial_store)
       = [userMessage chat_clock ''hello'', chatbot_error_message chat_clock']"
proof -
  have h: "apiFetch (HttpResponse 404 (None :: (chat_message list) api_response option))
             = Inl (Error ''HTTP error! status: 404'')"
    by (simp add: apiFetch_def response_ok_def decimal.simps)
  have none: "session_messages ''session-x'' initial_store = []"
    by (simp add: session_messages_def getChatSession_def initial_store_def)
  from chat_adapter_never_rejects [of chat_clock' "HttpResponse 404 None" chat_clock
      "''session-x''" "''hello''" initial_store "Error ''HTTP error! status: 404''"] h none
  show ?thesis by simp
qed

subsection \<open>Auxiliary facts about the audit collections\<close>

lemma audit_POST_storage:
  "snd (audit_POST clk request auditStorage)
     = (case request of
          Inl m \<Rightarrow> auditStorage
        | Inr body \<Rightarrow>
            if truthy (body_action body) \<and> truthy (body_actor body)
            then take 1000 (audit_POST_entry clk body # auditStorage)
            else auditStorage)"
  by (simp add: audit_POST_def Let_def split: sum.splits)

lemma audit_POST_suffix:
  "length auditStorage < 1000 \<Longrightarrow> suffix auditStorage (snd (audit_POST clk request auditStorage))"
  by (auto simp: audit_POST_storage suffix_def split: sum.splits)

lemma audit_POST_length:
  "length (snd (audit_POST clk request auditStorage)) \<le> Suc (length auditStorage)"
  by (auto simp: audit_POST_storage split: sum.splits)

lemma audit_POSTs_suffix:
  "length auditStorage + length reqs \<le> 1000 \<Longrightarrow> suffix auditStorage (audit_POSTs reqs auditStorage)"
proof (induction reqs arbitrary: auditStorage)
  case Nil
  show ?case by simp
next
  case (Cons req reqs)
  obtain clk request where req: "req = (clk, request)"
    by (cases req) auto
  let ?next = "snd (audit_POST clk request auditStorage)"
  from Cons.prems have small: "length auditStorage < 1000" by simp
  have step: "suffix auditStorage ?next"
    using small by (rule audit_POST_suffix)
  have "length ?next + length reqs \<le> 1000"
    using Cons.prems audit_POST_length [of clk request auditStorage] by simp
  then have "suffix ?next (audit_POSTs reqs ?next)"
    by (rule Cons.IH)
  with step show ?case
    by (simp add: req)
qed

lemma fold_addAuditLog:
  "auditLogs (fold addAuditLog entries st) = rev entries @ auditLogs st"
  by (induction entries arbitrary: st) (simp_all add: addAuditLog_def)

lemma accept_log_result:
  "case acceptRecommendation clk recId net st of
     (res, st') \<Rightarrow>
       (case res of
          Inr u \<Rightarrow> \<exists>entry. auditLogs st' = entry # auditLogs st
                       \<and> log_recId entry = Some recId
                       \<and> log_action entry = ''Recommendation Accepted''
        | Inl e \<Rightarrow> auditLogs st' = auditLogs st)"
  by (cases "postAudit net")
    (auto simp: acceptRecommendation_def acceptRecommendation_start_def
      acceptRecommendation_resume_def Let_def createAuditLog_def with_id_timestamp_def
      split: option.splits)

lemma override_log_result:
  "case overrideRecommendation clk recId altId net st of
     (res, st') \<Rightarrow>
       (case res of
          Inr u \<Rightarrow> \<exists>entry. auditLogs st' = entry # auditLogs st
                       \<and> log_recId entry = Some recId
                       \<and> log_action entry = ''Recommendation Overridden''
        | Inl e \<Rightarrow> auditLogs st' = auditLogs st)"
  by (cases "postAudit net")
    (auto simp: overrideRecommendation_def overrideRecommendation_start_def
      overrideRecommendation_resume_def Let_def createAuditLog_def with_id_timestamp_def
      split: option.splits)

lemma reject_log_result:
  "case rejectRecommendation clk recId reason net st of
     (res, st') \<Rightarrow>
       (case res of
          Inr u \<Rightarrow> \<exists>entry. auditLogs st' = entry # auditLogs st
                       \<and> log_recId entry = Some recId
                       \<and> log_action entry = ''Recommendation Rejected''
                       \<and> log_reason entry = Some reason
        | Inl e \<Rightarrow> auditLogs st' = auditLogs st)"
  by (cases "postAudit net")
    (auto simp: rejectRecommendation_def rejectRecommendation_start_def
      rejectRecommendation_resume_def Let_def createAuditLog_def with_id_timestamp_def
      split: option.splits)

lemma runSimulation_resume_log:
  "case runSimulation_resume clk kept audited cur of
     (res, cur') \<Rightarrow>
       (case audited of
          Inr u \<Rightarrow> res = Inr (fst kept)
                   \<and> auditLogs cur'
                       = with_id_timestamp (snd kept) (''audit-'' @ decimal (nowMs clk)) (nowIso clk)
                           # auditLogs cur
        | Inl e \<Rightarrow> res = Inl e \<and> auditLogs cur' = auditLogs cur)"
  by (cases kept; cases audited) (simp_all add: runSimulation_resume_def)

lemma runSimulation_other_blocks:
  "auditLogs (runSimulation_start cur) = auditLogs cur
   \<and> auditLogs (snd (runSimulation_simulated payload simulated cur)) = auditLogs cur"
  by (cases simulated) (simp_all add: runSimulation_start_def runSimulation_simulated_def)

lemma runSimulation_log_result:
  "case runSimulation clk clk' payload sim_net audit_net st of
     (res, st') \<Rightarrow>
       (case res of
          Inr result \<Rightarrow> \<exists>entry. auditLogs st' = entry # auditLogs st
                            \<and> log_action entry = ''What-If Simulation Executed''
                            \<and> log_trainId entry = Some (wp_trainId payload)
        | Inl e \<Rightarrow> auditLogs st' = auditLogs st)"
  by (cases "postAudit audit_net"; cases "apiFetch sim_net")
    (simp_all add: runSimulation_def runSimulation_simulated_def runWhatIfScenario_def
      runSimulation_start_def runSimulation_resume_def runSimulation_auditLog_def
      createAuditLog_def with_id_timestamp_def)

subsection \<open>C5: where the id and the timestamp of a stored audit entry come from\<close>

text \<open>
  Claim C5 as stated fails: \<open>postAudit\<close> puts an id and a timestamp made in the browser into
  the body it posts, and the handler of \<open>POST /audit\<close> stores these, not its own. Here the
  server's clock reads 42 and the stored entry carries the client's 41.
\<close>

theorem audit_id_counterexample:
  "map log_id
     (snd (audit_POST server_clock
             (Inr (json_of_audit_log (postAudit_body client_clock accepted_draft))) []))
     = [''audit-41-a1b2c3d4e'']
   \<and> map log_timestamp
       (snd (audit_POST server_clock
               (Inr (json_of_audit_log (postAudit_body client_clock accepted_draft))) []))
     = [''2025-01-01T00:00:00.041Z'']
   \<and> nowMs server_clock = 42
   \<and> nowIso server_clock = ''2025-01-01T00:00:00.042Z''"
  by (simp add: audit_POST_storage audit_POST_entry_def json_of_audit_log_def postAudit_body_def
      with_id_timestamp_def accepted_draft_def createAuditLog_def truthy_def or_else_def
      client_clock_def server_clock_def decimal.simps)

text \<open>
  Claim C5 as amended. For a body with a non-empty action and actor, \<open>POST /audit\<close> puts one
  entry in front of the storage and answers with that entry's id. The entry's id is the id
  of the body when the body has a non-empty one, and otherwise an id the server makes; its
  timestamp is the body's when the body has a non-empty one, and otherwise the server's time.
  The body \<open>postAudit\<close> sends has both, made on the client, so for an entry posted through
  \<open>postAudit\<close> the stored id and timestamp are the client's.
\<close>

theorem audit_POST_id_and_timestamp:
  assumes action: "truthy (body_action body)" and actor: "truthy (body_actor body)"
  shows "(case audit_POST clk (Inr body) auditStorage of
            (reply, kept) \<Rightarrow>
              (\<exists>entry rest response.
                  kept = entry # rest \<and> reply = Inr response \<and> resp_data response = log_id entry
                \<and> log_id entry =
                    (case body_id body of
                       None \<Rightarrow> ''audit-'' @ decimal (nowMs clk) @ ''-'' @ randomSuffix clk
                     | Some i \<Rightarrow>
                         if i = [] then ''audit-'' @ decimal (nowMs clk) @ ''-'' @ randomSuffix clk
                         else i)
                \<and> log_timestamp entry =
                    (case body_timestamp body of
                       None \<Rightarrow> nowIso clk
                     | Some t \<Rightarrow> if t = [] then nowIso clk else t)))
       \<and> (body = json_of_audit_log (postAudit_body cclk d) \<and> nowIso cclk \<noteq> [] \<longrightarrow>
            map log_id (take 1 (snd (audit_POST clk (Inr body) auditStorage)))
              = [''audit-'' @ decimal (nowMs cclk) @ ''-'' @ randomSuffix cclk]
          \<and> map log_timestamp (take 1 (snd (audit_POST clk (Inr body) auditStorage)))
              = [nowIso cclk])"
  using assms
  by (auto simp: audit_POST_def Let_def audit_POST_entry_def or_else_def json_of_audit_log_def
      postAudit_body_def with_id_timestamp_def split: option.splits)

theorem audit_POST_id_and_timestamp_witness:
  "truthy (body_action (json_of_audit_log (postAudit_body client_clock accepted_draft)))
   \<and> truthy (body_actor (json_of_audit_log (postAudit_body client_clock accepted_draft)))
   \<and> nowIso client_clock \<noteq> []
   \<and> map log_id
       (take 1 (snd (audit_POST server_clock
                       (Inr (json_of_audit_log (postAudit_body client_clock accepted_draft)))
                       full_storage)))
       = [''audit-'' @ decimal (nowMs client_clock) @ ''-'' @ randomSuffix client_clock]
   \<and> map log_timestamp
       (take 1 (snd (audit_POST server_clock
                       (Inr (json_of_audit_log (postAudit_body client_clock accepted_draft)))
                       full_storage)))
       = [nowIso client_clock]"
proof -
  let ?body = "json_of_audit_log (postAudit_body client_clock accepted_draft)"
  have a: "truthy (body_action ?body)" and b: "truthy (body_actor ?body)"
    by (simp_all add: truthy_def json_of_audit_log_def postAudit_body_def with_id_timestamp_def
        accepted_draft_def createAuditLog_def)
  have c: "nowIso client_clock \<noteq> []"
    by (simp add: client_clock_def)
  from audit_POST_id_and_timestamp [OF a b, of server_clock full_storage client_clock
      accepted_draft] a b c
  show ?thesis by blast
qed

subsection \<open>C8: how far the audit collections are append-only\<close>

text \<open>
  Claim C8 as stated fails for the storage of \<open>POST /audit\<close>: the handler keeps the newest
  1000 entries. Posting to a storage that holds 1000 entries drops the oldest one.
\<close>

theorem audit_storage_counterexample:
  "length full_storage = 1000
   \<and> old_entry \<in> set full_storage
   \<and> old_entry \<notin> set (snd (audit_POST server_clock
                                (Inr (json_of_audit_log (postAudit_body client_clock accepted_draft)))
                                full_storage))"
proof -
  let ?body = "json_of_audit_log (postAudit_body client_clock accepted_draft)"
  have a: "truthy (body_action ?body)" and b: "truthy (body_actor ?body)"
    by (simp_all add: truthy_def json_of_audit_log_def postAudit_body_def with_id_timestamp_def
        accepted_draft_def createAuditLog_def)
  have kept: "snd (audit_POST server_clock (Inr ?body) full_storage)
                = audit_POST_entry server_clock ?body # replicate 999 recent_entry"
    by (simp add: audit_POST_storage a b full_storage_def)
  have new: "log_id (audit_POST_entry server_clock ?body) \<noteq> log_id old_entry"
    by (simp add: audit_POST_entry_def json_of_audit_log_def postAudit_body_def
        with_id_timestamp_def or_else_def old_entry_def client_clock_def decimal.simps)
  have recent: "log_id recent_entry \<noteq> log_id old_entry"
    by (simp add: recent_entry_def old_entry_def with_id_timestamp_def)
  from new recent have "old_entry \<notin> set (audit_POST_entry server_clock ?body # replicate 999 recent_entry)"
    by auto
  then show ?thesis
    by (simp add: kept) (simp add: full_storage_def)
qed

text \<open>
  Claim C8 as amended. New entries are put in front. \<open>addAuditLog\<close>, any sequence of its
  calls, and every block of \<open>runSimulation\<close> leave the entries the store's log holds at that
  moment in place, unmodified and in order, behind what they add, on whatever store they run;
  a \<open>runSimulation\<close> that resolves has added its one entry. A decision action that runs with
  no other update of the store between its first block and its commit adds exactly one entry,
  carrying the recommendation's id, in front of the log when it resolves, and leaves the log
  as it is when it rejects. The handler of \<open>POST /audit\<close> leaves the storage as it is on a
  request it refuses, and otherwise puts the new entry in front and keeps the first 1000:
  while the storage holds fewer than 1000 entries every earlier entry stays, unmodified and
  in order, and so it is along any sequence of posts that does not take the storage beyond
  1000; beyond that the oldest entries are dropped.
\<close>

theorem audit_collections_append_only:
  "auditLogs (addAuditLog entry cur) = entry # auditLogs cur
   \<and> suffix (auditLogs cur) (auditLogs (fold addAuditLog entries cur))
   \<and> auditLogs (runSimulation_start cur) = auditLogs cur
   \<and> auditLogs (snd (runSimulation_simulated payload simulated cur)) = auditLogs cur
   \<and> (case runSimulation_resume clk kept audited cur of
         (res, cur') \<Rightarrow>
           (case audited of
              Inr u \<Rightarrow> res = Inr (fst kept)
                       \<and> auditLogs cur'
                           = with_id_timestamp (snd kept) (''audit-'' @ decimal (nowMs clk))
                               (nowIso clk)
                               # auditLogs cur
            | Inl e \<Rightarrow> res = Inl e \<and> auditLogs cur' = auditLogs cur))
   \<and> (case runSimulation clk0 clk payload sim_net net st of
         (res, st') \<Rightarrow>
           (case res of
              Inr result \<Rightarrow> \<exists>entry. auditLogs st' = entry # auditLogs st
                                \<and> log_action entry = ''What-If Simulation Executed''
                                \<and> log_trainId entry = Some (wp_trainId payload)
            | Inl e \<Rightarrow> auditLogs st' = auditLogs st))
   \<and> (case acceptRecommendation clk recId net st of
         (res, st') \<Rightarrow>
           (case res of
              Inr u \<Rightarrow> \<exists>entry. auditLogs st' = entry # auditLogs st
                           \<and> log_recId entry = Some recId
                           \<and> log_action entry = ''Recommendation Accepted''
            | Inl e \<Rightarrow> auditLogs st' = auditLogs st))
   \<and> (case overrideRecommendation clk recId altId net st of
         (res, st') \<Rightarrow>
           (case res of
              Inr u \<Rightarrow> \<exists>entry. auditLogs st' = entry # auditLogs st
                           \<and> log_recId entry = Some recId
                           \<and> log_action entry = ''Recommendation Overridden''
            | Inl e \<Rightarrow> auditLogs st' = auditLogs st))
   \<and> (case rejectRecommendation clk recId reason net st of
         (res, st') \<Rightarrow>
           (case res of
              Inr u \<Rightarrow> \<exists>entry. auditLogs st' = entry # auditLogs st
                           \<and> log_recId entry = Some recId
                           \<and> log_action entry = ''Recommendation Rejected''
                           \<and> log_reason entry = Some reason
            | Inl e \<Rightarrow> auditLogs st' = auditLogs st))
   \<and> snd (audit_POST clk request auditStorage)
       = (case request of
            Inl m \<Rightarrow> auditStorage
          | Inr body \<Rightarrow>
              if truthy (body_action body) \<and> truthy (body_actor body)
              then take 1000 (audit_POST_entry clk body # auditStorage)
              else auditStorage)
   \<and> (length auditStorage < 1000 \<longrightarrow>
         suffix auditStorage (snd (audit_POST clk request auditStorage)))
   \<and> (length auditStorage + length reqs \<le> 1000 \<longrightarrow>
         suffix auditStorage (audit_POSTs reqs auditStorage))"
proof -
  have one: "auditLogs (addAuditLog entry cur) = entry # auditLogs cur"
    by (simp add: addAuditLog_def)
  have many: "suffix (auditLogs cur) (auditLogs (fold addAuditLog entries cur))"
    by (simp add: fold_addAuditLog suffix_def)
  show ?thesis
    by (intro conjI impI one many runSimulation_other_blocks [THEN conjunct1]
        runSimulation_other_blocks [THEN conjunct2] runSimulation_resume_log
        runSimulation_log_result accept_log_result override_log_result reject_log_result
        audit_POST_storage audit_POST_suffix audit_POSTs_suffix)
qed

text \<open>On a log that holds one entry: accepting \<open>rec-001\<close>, and a simulation whose
  simulator is unreachable, each with an audit write that succeeds.\<close>

lemma store_scenarios:
  "map log_id
     (auditLogs (snd (acceptRecommendation server_clock ''rec-001'' (HttpResponse 200 (Some ()))
                        (addAuditLog old_entry scenario_store))))
     = [''audit-42'', ''audit-old'']
   \<and> map log_action
       (auditLogs (snd (runSimulation client_clock server_clock delay_payload
                          (FetchThrows ''offline'') (HttpResponse 200 (Some ()))
                          (addAuditLog old_entry initial_store))))
     = [''What-If Simulation Executed'', ''Recommendation Accepted'']"
  by (simp add: acceptRecommendation_def acceptRecommendation_start_def
      acceptRecommendation_resume_def postAudit_ok addAuditLog_def scenario_store_def
      initial_store_def mockRecommendations_def with_id_timestamp_def createAuditLog_def
      server_clock_def decimal.simps old_entry_def accepted_draft_def
      runSimulation_def runSimulation_start_def runSimulation_simulated_def
      runSimulation_resume_def runWhatIfScenario_def apiFetch_def runSimulation_auditLog_def)

text \<open>Three posts to a storage of one entry, the second one refused for its missing actor;
  and the two store scenarios above.\<close>

theorem audit_collections_append_only_witness:
  "length [old_entry] + length
      [(server_clock, Inr (json_of_audit_log (postAudit_body client_clock accepted_draft))),
       (server_clock, Inr ((json_of_audit_log old_entry)\<lparr>body_actor := None\<rparr>)),
       (server_clock, Inr (json_of_audit_log recent_entry))] \<le> 1000
   \<and> map log_id
       (audit_POSTs
          [(server_clock, Inr (json_of_audit_log (postAudit_body client_clock accepted_draft))),
           (server_clock, Inr ((json_of_audit_log old_entry)\<lparr>body_actor := None\<rparr>)),
           (server_clock, Inr (json_of_audit_log recent_entry))] [old_entry])
       = [''audit-recent'', ''audit-41-a1b2c3d4e'', ''audit-old'']
   \<and> suffix [old_entry]
       (audit_POSTs
          [(server_clock, Inr (json_of_audit_log (postAudit_body client_clock accepted_draft))),
           (server_clock, Inr ((json_of_audit_log old_entry)\<lparr>body_actor := None\<rparr>)),
           (server_clock, Inr (json_of_audit_log recent_entry))] [old_entry])
   \<and> length [old_entry] < 1000
   \<and> suffix [old_entry]
       (snd (audit_POST server_clock (Inr (json_of_audit_log recent_entry)) [old_entry]))
   \<and> map log_id
       (auditLogs (snd (acceptRecommendation server_clock ''rec-001'' (HttpResponse 200 (Some ()))
                          (addAuditLog old_entry scenario_store))))
       = [''audit-42'', ''audit-old'']
   \<and> map log_action
       (auditLogs (snd (runSimulation client_clock server_clock delay_payload
                          (FetchThrows ''offline'') (HttpResponse 200 (Some ()))
                          (addAuditLog old_entry initial_store))))
       = [''What-If Simulation Executed'', ''Recommendation Accepted'']"
proof -
  let ?reqs = "[(server_clock, Inr (json_of_audit_log (postAudit_body client_clock accepted_draft))),
       (server_clock, Inr ((json_of_audit_log old_entry)\<lparr>body_actor := None\<rparr>)),
       (server_clock, Inr (json_of_audit_log recent_entry))]"
  have len: "length [old_entry] + length ?reqs \<le> 1000" and one: "length [old_entry] < 1000"
    by simp_all
  have ids: "map log_id (audit_POSTs ?reqs [old_entry])
               = [''audit-recent'', ''audit-41-a1b2c3d4e'', ''audit-old'']"
    by (simp add: audit_POST_storage audit_POST_entry_def json_of_audit_log_def
        postAudit_body_def with_id_timestamp_def accepted_draft_def createAuditLog_def
        truthy_def or_else_def client_clock_def old_entry_def recent_entry_def decimal.simps)
  have "suffix [old_entry] (audit_POSTs ?reqs [old_entry])
        \<and> suffix [old_entry]
            (snd (audit_POST server_clock (Inr (json_of_audit_log recent_entry)) [old_entry]))"
    using audit_collections_append_only [where entry = old_entry and cur = initial_store
        and entries = "[]" and payload = delay_payload and simulated = "Inr delay_result"
        and clk = server_clock and kept = "(delay_result, accepted_draft)"
        and audited = "Inr ()" and ?clk0.0 = client_clock
        and sim_net = "FetchThrows ''offline''" and net = "FetchThrows ''offline''"
        and st = initial_store and recId = "''rec-001''" and altId = "''alt-001''"
        and reason = "''Safety concern''" and request = "Inr (json_of_audit_log recent_entry)"
        and auditStorage = "[old_entry]" and reqs = ?reqs] len one
    by blast
  with len one ids store_scenarios show ?thesis by blast
qed

text \<open>
  What the amended claim leaves out: the commit of a decision action writes the log of the
  snapshot taken in its first block, with its entry in front, whatever the log of the store
  is by then.
\<close>

lemma decision_commit_uses_snapshot:
  "auditLogs (snd (acceptRecommendation_resume clk recId (Inr ()) (state, draft) cur))
     = with_id_timestamp draft (''audit-'' @ decimal (nowMs clk)) (nowIso clk) # auditLogs state
   \<and> auditLogs (snd (overrideRecommendation_resume clk recId (Inr ()) (state, alt, draft) cur))
     = with_id_timestamp draft (''audit-'' @ decimal (nowMs clk)) (nowIso clk) # auditLogs state
   \<and> auditLogs (snd (rejectRecommendation_resume clk recId (Inr ()) (state, draft) cur))
     = with_id_timestamp draft (''audit-'' @ decimal (nowMs clk)) (nowIso clk) # auditLogs state"
  by (simp add: acceptRecommendation_resume_def overrideRecommendation_resume_def
      rejectRecommendation_resume_def)

subsection \<open>C6: the fetch actions\<close>




text \<open>With the reply of this repository's \<open>GET /kpis\<close>, what \<open>fetchKpis\<close> stores in \<open>kpis\<close> is
  the report object, whose field \<open>kpis\<close> holds the array.\<close>

lemma fetchKpis_stores_report:
  "kpis (fetchKpis clk
           (HttpResponse 200
              (Some \<lparr>resp_data = kpis_GET_data sclk ks health history, resp_success = True,
                     resp_message = Some ''KPIs retrieved successfully'',
                     resp_timestamp = nowIso sclk, resp_metadata = meta\<rparr>))
           st)
     = kpis_GET_data sclk ks health history"
  by (simp add: fetchKpis_def fetchKpis_resume_def apiFetch_def response_ok_def)

subsection \<open>C9: the headers \<open>apiFetch\<close> sends\<close>

text \<open>
  Claim C9 does not hold of the code. \<open>apiFetch\<close> builds the merged headers, the default
  content type overridden key by key by the caller's headers, and then spreads the caller's
  options over the object that holds them: whenever the caller's options have a \<open>headers\<close>
  property, that property replaces the merged headers as a whole. A caller that supplies only
  an authorization header sends no content type. Without a \<open>headers\<close> property the default
  is sent.
\<close>

theorem apiFetch_headers_replaced:
  "ri_headers (defaultOptions (options\<lparr>ri_headers := Some h\<rparr>)) = Some h
   \<and> ri_headers (defaultOptions authorized_options) = Some [''Authorization'' \<mapsto> ''Bearer token'']
   \<and> [''Authorization'' \<mapsto> ''Bearer token''] ''Content-Type'' = None
   \<and> ri_headers (defaultOptions (options\<lparr>ri_headers := None\<rparr>))
       = Some [''Content-Type'' \<mapsto> ''application/json'']"
  by (simp add: defaultOptions_def spread_over_def spread_headers_def authorized_options_def)

end
